theory Spec2Isabelle
  imports Main
begin

section \<open>Python strings\<close>

text \<open>
  A Python \<open>str\<close> is a sequence of Unicode code points, so the model of a string is
  the list of its code points as natural numbers. The Korean literals of the source are
  written as hexadecimal code points (\<open>0xC785, 0xC2DC\<close> is the two-syllable keyword
  U+C785 U+C2DC); ASCII literals are written as HOL strings and converted by \<open>ustr\<close>.
\<close>

type_synonym pystr = "nat list"

definition ustr :: "string \<Rightarrow> pystr" where
  "ustr s = map of_char s"

text \<open>\<open>s.startswith(p)\<close>\<close>

fun startswith :: "pystr \<Rightarrow> pystr \<Rightarrow> bool" where
  "startswith s [] = True"
| "startswith [] (p # ps) = False"
| "startswith (c # s) (p # ps) = (c = p \<and> startswith s ps)"

text \<open>\<open>w in s\<close> on two strings: a scan of \<open>s\<close> from the left for an occurrence of \<open>w\<close>.\<close>

fun py_in :: "pystr \<Rightarrow> pystr \<Rightarrow> bool" where
  "py_in w [] = (w = [])"
| "py_in w (c # s) = (startswith (c # s) w \<or> py_in w s)"

text \<open>
  \<open>any(word in s for word in words)\<close>: the generator is consumed from the left and
  stops at the first word found.
\<close>

fun py_any_in :: "pystr list \<Rightarrow> pystr \<Rightarrow> bool" where
  "py_any_in [] s = False"
| "py_any_in (w # ws) s = (if py_in w s then True else py_any_in ws s)"

text \<open>
  \<open>s.split(sep)\<close> for a separator of one character: the pieces between the occurrences
  of \<open>sep\<close>, of which there is always at least one (\<open>''.split('-') == ['']\<close>).
\<close>

fun py_split :: "nat \<Rightarrow> pystr \<Rightarrow> pystr list" where
  "py_split sep [] = [[]]"
| "py_split sep (c # s) =
     (if c = sep then [] # py_split sep s
      else (case py_split sep s of
              [] \<Rightarrow> [[c]]
            | piece # pieces \<Rightarrow> (c # piece) # pieces))"

text \<open>\<open>sep.join(parts)\<close>\<close>

fun py_join :: "pystr \<Rightarrow> pystr list \<Rightarrow> pystr" where
  "py_join sep [] = []"
| "py_join sep [x] = x"
| "py_join sep (x # y # ys) = x @ sep @ py_join sep (y # ys)"

text \<open>
  \<open>s.strip()\<close> removes leading and trailing white space, that is the code points for
  which \<open>str.isspace\<close> holds.
\<close>

definition py_isspace :: "nat \<Rightarrow> bool" where
  "py_isspace c \<longleftrightarrow>
     (0x9 \<le> c \<and> c \<le> 0xD) \<or> (0x1C \<le> c \<and> c \<le> 0x20) \<or> c = 0x85 \<or> c = 0xA0 \<or>
     c = 0x1680 \<or> (0x2000 \<le> c \<and> c \<le> 0x200A) \<or> c = 0x2028 \<or> c = 0x2029 \<or>
     c = 0x202F \<or> c = 0x205F \<or> c = 0x3000"

definition py_strip :: "pystr \<Rightarrow> pystr" where
  "py_strip s = rev (dropWhile py_isspace (rev (dropWhile py_isspace s)))"

text \<open>\<open>str(n)\<close> of a non-negative integer, as the f-string of the recency filter prints the year.\<close>

fun py_str_nat :: "nat \<Rightarrow> pystr" where
  "py_str_nat n = (if n < 10 then [48 + n] else py_str_nat (n div 10) @ [48 + n mod 10])"

declare py_str_nat.simps [simp del]

section \<open>Summarizer\<close>

text \<open>
  The dictionary \<open>keywords\<close> of \<open>extract_content_summary\<close>, in declaration order
  (a Python dictionary iterates in insertion order), and the sentence returned when no
  keyword occurs in the title. The constant is \<open>keywords_dict\<close>, as \<open>keywords\<close> is a
  reserved word of the theory language.
\<close>

definition keywords_dict :: "(pystr \<times> pystr) list" where
  "keywords_dict =
    [([0xC785, 0xC2DC],
      [0xB300, 0xD559, 0xC785, 0xC2DC, 0x20, 0xAD00, 0xB828, 0x20, 0xC911, 0xC694, 0x20,
       0xACF5, 0xC9C0, 0xC0AC, 0xD56D, 0xC785, 0xB2C8, 0xB2E4, 0x2E]),
     ([0xC218, 0xB2A5],
      [0xB300, 0xD559, 0xC218, 0xD559, 0xB2A5, 0xB825, 0xC2DC, 0xD5D8, 0x20, 0xAD00, 0xB828,
       0x20, 0xC548, 0xB0B4, 0xC0AC, 0xD56D, 0xC785, 0xB2C8, 0xB2E4, 0x2E]),
     ([0xC804, 0xD615],
      [0xB300, 0xD559, 0x20, 0xC785, 0xD559, 0xC804, 0xD615, 0x20, 0xBCC0, 0xACBD, 0x20,
       0xB610, 0xB294, 0x20, 0xC548, 0xB0B4, 0xC0AC, 0xD56D, 0xC785, 0xB2C8, 0xB2E4, 0x2E]),
     ([0xBAA8, 0xC9D1],
      [0xB300, 0xD559, 0x20, 0xC2E0, 0xC785, 0xC0DD, 0x20, 0xBAA8, 0xC9D1, 0x20, 0xAD00,
       0xB828, 0x20, 0xC815, 0xBCF4, 0xC785, 0xB2C8, 0xB2E4, 0x2E]),
     ([0xC6D0, 0xC11C],
      [0xC785, 0xD559, 0xC6D0, 0xC11C, 0x20, 0xC811, 0xC218, 0x20, 0xAD00, 0xB828, 0x20,
       0xC548, 0xB0B4, 0xC785, 0xB2C8, 0xB2E4, 0x2E]),
     ([0xBA74, 0xC811],
      [0xC785, 0xD559, 0x20, 0xBA74, 0xC811, 0xC804, 0xD615, 0x20, 0xAD00, 0xB828, 0x20,
       0xC815, 0xBCF4, 0xC785, 0xB2C8, 0xB2E4, 0x2E]),
     ([0xD2B9, 0xBAA9, 0xACE0],
      [0xD2B9, 0xBAA9, 0xACE0, 0x20, 0xC785, 0xD559, 0x20, 0xAD00, 0xB828, 0x20, 0xC548,
       0xB0B4, 0xC0AC, 0xD56D, 0xC785, 0xB2C8, 0xB2E4, 0x2E]),
     ([0xC790, 0xC0AC, 0xACE0],
      [0xC790, 0xC728, 0xD615, 0xC0AC, 0xB9BD, 0xACE0, 0x20, 0xAD00, 0xB828, 0x20, 0xC815,
       0xBCF4, 0xC785, 0xB2C8, 0xB2E4, 0x2E])]"

definition fallback_summary :: pystr where
  "fallback_summary =
     [0xC785, 0xC2DC, 0x20, 0xAD00, 0xB828, 0x20, 0xC911, 0xC694, 0x20, 0xC815, 0xBCF4,
      0xB97C, 0x20, 0xD655, 0xC778, 0xD558, 0xC2DC, 0xAE30, 0x20, 0xBC14, 0xB78D, 0xB2C8,
      0xB2E4, 0x2E]"

text \<open>The loop \<open>for keyword, summary in keywords.items()\<close> with its early return.\<close>

fun summary_loop :: "(pystr \<times> pystr) list \<Rightarrow> pystr \<Rightarrow> pystr" where
  "summary_loop [] title = fallback_summary"
| "summary_loop ((keyword, summary) # rest) title =
     (if py_in keyword title then summary else summary_loop rest title)"

definition extract_content_summary :: "pystr \<Rightarrow> pystr" where
  "extract_content_summary title = summary_loop keywords_dict title"

section \<open>Classifier\<close>

datatype category = major_news | university_news | exam_schedule | education_office_news

definition admission_terms :: "pystr list" where
  "admission_terms =
     [[0xB300, 0xC785], [0xC218, 0xB2A5], [0xC785, 0xC2DC], [0xC804, 0xD615]]"

definition university_terms :: "pystr list" where
  "university_terms = [[0xB300, 0xD559, 0xAD50], [0xB300, 0xD559]]"

definition schedule_terms :: "pystr list" where
  "schedule_terms =
     [[0xC77C, 0xC815], [0xBAA8, 0xC9D1], [0xC811, 0xC218], [0xB9C8, 0xAC10]]"

text \<open>
  \<open>classify_article\<close>. The case mapping \<open>str.lower\<close> is a table of the Unicode
  database, which is no part of the repository: it is the parameter \<open>lower\<close>.
\<close>

definition classify_article :: "(pystr \<Rightarrow> pystr) \<Rightarrow> pystr \<Rightarrow> category" where
  "classify_article lower title =
     (let title_lower = lower title in
      if py_any_in admission_terms title_lower then major_news
      else if py_any_in university_terms title_lower then university_news
      else if py_any_in schedule_terms title_lower then exam_schedule
      else education_office_news)"

text \<open>
  \<open>str.lower\<close> restricted to the letters A to Z. It agrees with Python on every string
  made of ASCII characters and Hangul syllables, which have no case.
\<close>

definition lower_ascii :: "pystr \<Rightarrow> pystr" where
  "lower_ascii s = map (\<lambda>c. if 65 \<le> c \<and> c \<le> 90 then c + 32 else c) s"

section \<open>Dates\<close>

text \<open>
  The code points of category Nd (decimal digit) come in runs of ten, zero to nine; this
  is the list of the zeros (Unicode 14.0, as in Python 3.11). The regular expression
  class \<open>\d\<close> matches exactly these code points on a \<open>str\<close>, and \<open>int\<close> reads them.
\<close>

definition nd_zeros :: "nat list" where
  "nd_zeros =
     [48, 1632, 1776, 1984, 2406, 2534, 2662, 2790, 2918, 3046, 3174, 3302, 3430, 3558,
      3664, 3792, 3872, 4160, 4240, 6112, 6160, 6470, 6608, 6784, 6800, 6992, 7088, 7232,
      7248, 42528, 43216, 43264, 43472, 43504, 43600, 44016, 65296, 66720, 68912, 69734,
      69872, 69942, 70096, 70384, 70736, 70864, 71248, 71360, 71472, 71904, 72016, 72784,
      73040, 73120, 92768, 92864, 93008, 120782, 120792, 120802, 120812, 120822, 123200,
      123632, 125264, 130032]"

definition decimal_value :: "nat \<Rightarrow> nat option" where
  "decimal_value c = map_option (\<lambda>z. c - z) (find (\<lambda>z. z \<le> c \<and> c < z + 10) nd_zeros)"

definition is_decimal :: "nat \<Rightarrow> bool" where
  "is_decimal c \<longleftrightarrow> decimal_value c \<noteq> None"

text \<open>
  \<open>int(s)\<close> on the text of a group of the date pattern: white space around the digits is
  dropped, and anything but a non-empty run of decimal digits is a \<open>ValueError\<close>
  (\<open>None\<close>). Signs and underscores, which \<open>int\<close> also reads, occur in no group.
\<close>

definition py_int :: "pystr \<Rightarrow> nat option" where
  "py_int s =
     (let t = py_strip s in
      if t \<noteq> [] \<and> list_all is_decimal t
      then Some (foldl (\<lambda>n c. 10 * n + the (decimal_value c)) 0 t)
      else None)"

datatype py_exception =
    ValueError | OverflowError | TypeError
  | ConnectionError | Timeout | HTTPError nat | ParserError
  | StoreError

record datetime =
  dt_year :: nat
  dt_month :: nat
  dt_day :: nat
  dt_hour :: nat
  dt_minute :: nat
  dt_second :: nat
  dt_microsecond :: nat

definition is_leap :: "nat \<Rightarrow> bool" where
  "is_leap y \<longleftrightarrow> y mod 4 = 0 \<and> (y mod 100 \<noteq> 0 \<or> y mod 400 = 0)"

definition days_in_month :: "nat \<Rightarrow> nat \<Rightarrow> nat" where
  "days_in_month y m =
     (if m = 2 \<and> is_leap y then 29
      else [31, 28, 31, 30, 31, 30, 31, 31, 30, 31, 30, 31] ! (m - 1))"

definition days_before_month :: "nat \<Rightarrow> nat \<Rightarrow> nat" where
  "days_before_month y m =
     [0, 31, 59, 90, 120, 151, 181, 212, 243, 273, 304, 334] ! (m - 1) +
     (if m > 2 \<and> is_leap y then 1 else 0)"

definition days_before_year :: "nat \<Rightarrow> nat" where
  "days_before_year y =
     (let p = y - 1 in p * 365 + p div 4 + p div 400 - p div 100)"

text \<open>
  The checks of the \<open>datetime\<close> constructor on year, month and day: a date outside
  them is a \<open>ValueError\<close>.
\<close>

definition valid_date :: "nat \<Rightarrow> nat \<Rightarrow> nat \<Rightarrow> bool" where
  "valid_date y m d \<longleftrightarrow>
     1 \<le> y \<and> y \<le> 9999 \<and> 1 \<le> m \<and> m \<le> 12 \<and> 1 \<le> d \<and> d \<le> days_in_month y m"

text \<open>\<open>toordinal\<close>: the day number in the proleptic Gregorian calendar, 0001-01-01 being 1.\<close>

definition toordinal :: "datetime \<Rightarrow> int" where
  "toordinal t =
     int (days_before_year (dt_year t) + days_before_month (dt_year t) (dt_month t) + dt_day t)"

text \<open>
  A point in time as \<open>datetime\<close> arithmetic and comparison see it: the ordinal of the
  day and the time of day. Python compares two naive \<open>datetime\<close> values by year, month,
  day, hour, minute, second and microsecond in this order, which on valid dates is the
  order of the ordinals followed by the time of day.
\<close>

record instant =
  ordinal :: int
  time_of_day :: "nat \<times> nat \<times> nat \<times> nat"

definition instant_of :: "datetime \<Rightarrow> instant" where
  "instant_of t =
     \<lparr>ordinal = toordinal t,
      time_of_day = (dt_hour t, dt_minute t, dt_second t, dt_microsecond t)\<rparr>"

fun time_ge :: "nat \<times> nat \<times> nat \<times> nat \<Rightarrow> nat \<times> nat \<times> nat \<times> nat \<Rightarrow> bool" where
  "time_ge (h1, m1, s1, u1) (h2, m2, s2, u2) \<longleftrightarrow>
     h1 > h2 \<or> (h1 = h2 \<and> (m1 > m2 \<or> (m1 = m2 \<and> (s1 > s2 \<or> (s1 = s2 \<and> u1 \<ge> u2)))))"

text \<open>\<open>a >= b\<close> on two points in time.\<close>

definition instant_ge :: "instant \<Rightarrow> instant \<Rightarrow> bool" where
  "instant_ge a b \<longleftrightarrow>
     ordinal a > ordinal b \<or> (ordinal a = ordinal b \<and> time_ge (time_of_day a) (time_of_day b))"

text \<open>
  \<open>t - timedelta(days=n)\<close>: the day moves back, the time of day stays; a result before
  0001-01-01 or after 9999-12-31 (ordinal 3652059) is an \<open>OverflowError\<close>.
\<close>

definition minus_days :: "datetime \<Rightarrow> int \<Rightarrow> py_exception + instant" where
  "minus_days t n =
     (let i = instant_of t; d = ordinal i - n in
      if 0 < d \<and> d \<le> 3652059 then Inr (i\<lparr>ordinal := d\<rparr>) else Inl OverflowError)"

subsection \<open>\<open>datetime.strptime\<close>\<close>

text \<open>
  A format is a list of directives and literal characters: \<open>%Y-%m-%d\<close> is
  \<open>[DirY, Lit 45, Dirm, Lit 45, Dird]\<close>. \<open>strptime\<close> turns the format into a regular
  expression with one named group per directive,
  \<^item> \<open>%Y\<close>: \<open>\d\d\d\d\<close>,
  \<^item> \<open>%m\<close>: \<open>1[0-2]|0[1-9]|[1-9]\<close>,
  \<^item> \<open>%d\<close>: \<open>3[0-1]|[1-2]\d|0[1-9]|[1-9]| [1-9]\<close>,

  matches it at the start of the text, and rejects the text when nothing matches or when
  the match leaves text over. A group lists its matches in the order the alternatives are
  tried, so the head of \<open>regex_matches\<close> is the match a backtracking matcher finds.
\<close>

datatype directive = DirY | Dirm | Dird | Lit nat

definition in_range :: "nat \<Rightarrow> nat \<Rightarrow> nat \<Rightarrow> bool" where
  "in_range lo hi c \<longleftrightarrow> lo \<le> c \<and> c \<le> hi"

fun two_chars :: "(nat \<Rightarrow> bool) \<Rightarrow> (nat \<Rightarrow> bool) \<Rightarrow> pystr \<Rightarrow> (pystr \<times> pystr) list" where
  "two_chars p q (a # b # r) = (if p a \<and> q b then [([a, b], r)] else [])"
| "two_chars p q [a] = []"
| "two_chars p q [] = []"

fun one_char :: "(nat \<Rightarrow> bool) \<Rightarrow> pystr \<Rightarrow> (pystr \<times> pystr) list" where
  "one_char p (a # r) = (if p a then [([a], r)] else [])"
| "one_char p [] = []"

fun four_digits :: "pystr \<Rightarrow> (pystr \<times> pystr) list" where
  "four_digits (a # b # c # d # r) =
     (if is_decimal a \<and> is_decimal b \<and> is_decimal c \<and> is_decimal d
      then [([a, b, c, d], r)] else [])"
| "four_digits [a, b, c] = []"
| "four_digits [a, b] = []"
| "four_digits [a] = []"
| "four_digits [] = []"

fun group_matches :: "directive \<Rightarrow> pystr \<Rightarrow> (pystr \<times> pystr) list" where
  "group_matches DirY s = four_digits s"
| "group_matches Dirm s =
     two_chars (\<lambda>c. c = 49) (in_range 48 50) s @
     two_chars (\<lambda>c. c = 48) (in_range 49 57) s @
     one_char (in_range 49 57) s"
| "group_matches Dird s =
     two_chars (\<lambda>c. c = 51) (in_range 48 49) s @
     two_chars (in_range 49 50) is_decimal s @
     two_chars (\<lambda>c. c = 48) (in_range 49 57) s @
     one_char (in_range 49 57) s @
     two_chars (\<lambda>c. c = 32) (in_range 49 57) s"
| "group_matches (Lit x) s = one_char (\<lambda>c. c = x) s"

fun regex_matches :: "directive list \<Rightarrow> pystr \<Rightarrow> ((directive \<times> pystr) list \<times> pystr) list" where
  "regex_matches [] s = [([], s)]"
| "regex_matches (d # ds) s =
     concat (map (\<lambda>gr. map (\<lambda>fr. ((d, fst gr) # fst fr, snd fr)) (regex_matches ds (snd gr)))
                 (group_matches d s))"

text \<open>
  The value of a directive the format does not have is the default of \<open>strptime\<close>
  (year 1900, month 1, day 1); the time of the result is midnight. A 29 February
  without a year is rejected like any invalid date, 1900 not being a leap year.
\<close>

definition group_int :: "(directive \<times> pystr) list \<Rightarrow> directive \<Rightarrow> nat \<Rightarrow> nat option" where
  "group_int found d dflt = (case map_of found d of None \<Rightarrow> Some dflt | Some g \<Rightarrow> py_int g)"

definition strptime :: "pystr \<Rightarrow> directive list \<Rightarrow> py_exception + datetime" where
  "strptime data_string format =
     (case regex_matches format data_string of
        [] \<Rightarrow> Inl ValueError
      | (found, rest) # others \<Rightarrow>
          if rest \<noteq> [] then Inl ValueError
          else (case (group_int found DirY 1900, group_int found Dirm 1, group_int found Dird 1) of
                  (Some y, Some m, Some d) \<Rightarrow>
                    if valid_date y m d
                    then Inr \<lparr>dt_year = y, dt_month = m, dt_day = d, dt_hour = 0,
                              dt_minute = 0, dt_second = 0, dt_microsecond = 0\<rparr>
                    else Inl ValueError
                | _ \<Rightarrow> Inl ValueError))"

section \<open>Recency filter\<close>

text \<open>\<open>re.sub(r'[^\d\-\.]', '', date_text)\<close>: only decimal digits, hyphens and periods stay.\<close>

definition re_sub_non_date :: "pystr \<Rightarrow> pystr" where
  "re_sub_non_date s = filter (\<lambda>c. is_decimal c \<or> c = 45 \<or> c = 46) s"

definition date_formats :: "directive list list" where
  "date_formats =
     [[DirY, Lit 45, Dirm, Lit 45, Dird],
      [DirY, Lit 46, Dirm, Lit 46, Dird],
      [Dirm, Lit 45, Dird],
      [Dirm, Lit 46, Dird]]"

text \<open>
  The loop over the formats. Each round first prepends the year where the text has two
  components (\<open>prepend_year\<close>) and then runs the rest of the \<open>try\<close> block
  (\<open>try_format\<close>). \<open>date_text\<close> is assigned inside the loop, so a year that one
  round prepends is still there in the next round, which may prepend another. An
  exception of \<open>strptime\<close> or of the subtraction goes to the bare \<open>except\<close>, which
  continues with the next format; after the last format the answer is \<open>True\<close>.
  \<open>now\<close> is the value of \<open>datetime.now()\<close>, taken as the same moment at each call.
\<close>

definition prepend_year :: "datetime \<Rightarrow> pystr \<Rightarrow> pystr" where
  "prepend_year now date_text =
     (if length (py_split 45 date_text) = 2 \<or> length (py_split 46 date_text) = 2
      then py_str_nat (dt_year now) @ [45] @ date_text
      else date_text)"

definition try_format :: "datetime \<Rightarrow> pystr \<Rightarrow> directive list \<Rightarrow> py_exception + bool" where
  "try_format now date_text fmt =
     (case strptime date_text fmt of
        Inl e \<Rightarrow> Inl e
      | Inr article_date \<Rightarrow>
          (case minus_days now 30 of
             Inl e \<Rightarrow> Inl e
           | Inr thirty_days_ago \<Rightarrow> Inr (instant_ge (instant_of article_date) thirty_days_ago)))"

fun formats_loop :: "datetime \<Rightarrow> directive list list \<Rightarrow> pystr \<Rightarrow> bool" where
  "formats_loop now [] date_text = True"
| "formats_loop now (fmt # fmts) date_text =
     (case try_format now (prepend_year now date_text) fmt of
        Inl e \<Rightarrow> formats_loop now fmts (prepend_year now date_text)
      | Inr recent \<Rightarrow> recent)"

definition is_recent_article :: "datetime \<Rightarrow> pystr \<Rightarrow> bool" where
  "is_recent_article now date_text = formats_loop now date_formats (re_sub_non_date date_text)"

section \<open>Site registry\<close>

record config =
  cfg_url :: pystr
  cfg_selector :: pystr
  cfg_title_selector :: pystr
  cfg_date_selector :: pystr

text \<open>
  The dictionary \<open>EDUCATION_OFFICES\<close> in declaration order. The four names are the
  Korean names of the Ministry of Education and of the Seoul, Gyeonggi and Incheon
  offices of education.
\<close>

definition EDUCATION_OFFICES :: "(pystr \<times> config) list" where
  "EDUCATION_OFFICES =
     [([0xAD50, 0xC721, 0xBD80],
       \<lparr>cfg_url = ustr ''https://www.moe.go.kr/boardCnts/list.do?boardID=294'',
        cfg_selector = ustr ''.board-list-table tbody tr'',
        cfg_title_selector = ustr ''.title a'',
        cfg_date_selector = ustr ''.date''\<rparr>),
      ([0xC11C, 0xC6B8, 0xC2DC, 0xAD50, 0xC721, 0xCCAD],
       \<lparr>cfg_url = ustr ''https://www.sen.go.kr/web/services/bbs/bbsList.action?bbsBean.bbsCd=140'',
        cfg_selector = ustr ''.bbs-list tbody tr'',
        cfg_title_selector = ustr ''.subject a'',
        cfg_date_selector = ustr ''.reg-date''\<rparr>),
      ([0xACBD, 0xAE30, 0xB3C4, 0xAD50, 0xC721, 0xCCAD],
       \<lparr>cfg_url = ustr ''https://www.goe.go.kr/home/bbs/bbsList.do?menuNo=1020408'',
        cfg_selector = ustr ''.board_list tbody tr'',
        cfg_title_selector = ustr ''.title a'',
        cfg_date_selector = ustr ''.date''\<rparr>),
      ([0xC778, 0xCC9C, 0xC2DC, 0xAD50, 0xC721, 0xCCAD],
       \<lparr>cfg_url = ustr ''https://www.ice.go.kr/contents.do?menuNo=200047'',
        cfg_selector = ustr ''.list tbody tr'',
        cfg_title_selector = ustr ''.subject a'',
        cfg_date_selector = ustr ''.date''\<rparr>)]"

section \<open>Listing extractor\<close>

text \<open>
  A row element of a listing as the loop body reads it: what
  \<open>element.select_one(title_selector)\<close> returns (\<open>None\<close>, or an element with its
  \<open>get_text()\<close> and its \<open>href\<close> attribute, which may be missing) and what
  \<open>element.select_one(date_selector)\<close> returns (\<open>None\<close>, or an element with its
  \<open>get_text()\<close>).
\<close>

record anchor =
  anchor_text :: pystr
  anchor_href :: "pystr option"

record row =
  row_title :: "anchor option"
  row_date :: "pystr option"

text \<open>
  The candidate article built by the crawler. Its \<open>created_at\<close> is the sentinel
  \<open>SERVER_TIMESTAMP\<close>, which the store replaces by the commit time on writing, so the
  candidate carries no value for it.
\<close>

record article =
  a_title :: pystr
  a_source :: pystr
  a_link :: pystr
  a_date :: pystr
  a_content :: pystr
  a_category :: category

text \<open>The three statements on \<open>link\<close> after \<open>get('href', '')\<close>.\<close>

definition resolve_link :: "pystr \<Rightarrow> pystr \<Rightarrow> pystr" where
  "resolve_link cfg_url_text link =
     (if link \<noteq> [] \<and> \<not> startswith link (ustr ''http'')
      then (let base_url = py_join (ustr ''/'') (take 3 (py_split 47 cfg_url_text))
            in base_url @ link)
      else link)"

text \<open>
  The body of the loop over the rows: \<open>None\<close> when the row has no title element
  (\<open>continue\<close>) or is not recent, the article otherwise. No statement of the body raises
  on a row of this type, so the \<open>except\<close> of the loop body has no case here.
\<close>

definition extract_row ::
  "(pystr \<Rightarrow> pystr) \<Rightarrow> datetime \<Rightarrow> pystr \<Rightarrow> config \<Rightarrow> row \<Rightarrow> article option" where
  "extract_row lower now office_name cfg element =
     (case row_title element of
        None \<Rightarrow> None
      | Some title_element \<Rightarrow>
          (let title = py_strip (anchor_text title_element);
               link = resolve_link (cfg_url cfg)
                        (case anchor_href title_element of None \<Rightarrow> [] | Some h \<Rightarrow> h);
               date_text = (case row_date element of None \<Rightarrow> [] | Some t \<Rightarrow> py_strip t)
           in if is_recent_article now date_text
              then Some \<lparr>a_title = title, a_source = office_name, a_link = link,
                         a_date = date_text, a_content = extract_content_summary title,
                         a_category = classify_article lower title\<rparr>
              else None))"

fun rows_loop :: "(row \<Rightarrow> article option) \<Rightarrow> row list \<Rightarrow> article list" where
  "rows_loop body [] = []"
| "rows_loop body (element # rest) =
     (case body element of
        None \<Rightarrow> rows_loop body rest
      | Some a \<Rightarrow> a # rows_loop body rest)"

section \<open>Fetcher and crawl pass\<close>

text \<open>
  A response of \<open>requests.get\<close>: its status code, and what parsing its content and
  \<open>soup.select(selector)\<close> give, an exception or the matching elements in document
  order.
\<close>

record response =
  status_code :: nat
  selected :: "py_exception + row list"

text \<open>\<open>raise_for_status\<close> raises on a client or server error status.\<close>

definition raise_for_status :: "response \<Rightarrow> py_exception option" where
  "raise_for_status r =
     (if 400 \<le> status_code r \<and> status_code r < 600 then Some (HTTPError (status_code r))
      else None)"

text \<open>
  What the program gets from outside during one invocation: the clock, the case mapping
  of the Unicode database, the network, and the store's client (whether creating it or a
  call of it raises, the commit time it assigns, and the identity \<open>document()\<close>
  generates at its \<open>k\<close>-th call).
\<close>

record world =
  w_now :: datetime
  w_lower :: "pystr \<Rightarrow> pystr"
  w_http_get :: "pystr \<Rightarrow> py_exception + response"
  w_client_error :: "py_exception option"
  w_store_error :: "py_exception option"
  w_server_time :: nat
  w_auto_id :: "nat \<Rightarrow> nat"

text \<open>
  \<open>crawl_education_office\<close>: every exception before the loop over the rows is caught by
  the outer \<open>except\<close>, which returns the list built so far, then still empty.
\<close>

definition crawl_education_office :: "world \<Rightarrow> pystr \<Rightarrow> config \<Rightarrow> article list" where
  "crawl_education_office w office_name cfg =
     (case w_http_get w (cfg_url cfg) of
        Inl e \<Rightarrow> []
      | Inr resp \<Rightarrow>
          (case raise_for_status resp of
             Some e \<Rightarrow> []
           | None \<Rightarrow>
               (case selected resp of
                  Inl e \<Rightarrow> []
                | Inr article_elements \<Rightarrow>
                    rows_loop (extract_row (w_lower w) (w_now w) office_name cfg)
                      (take 5 article_elements))))"

text \<open>
  The loop of \<open>weekly_news_crawler\<close> over the registry. \<open>crawl_education_office\<close>
  returns a list in every case, so the \<open>except\<close> around the call has no case here.
\<close>

fun offices_loop :: "world \<Rightarrow> (pystr \<times> config) list \<Rightarrow> article list" where
  "offices_loop w [] = []"
| "offices_loop w ((office_name, cfg) # rest) =
     crawl_education_office w office_name cfg @ offices_loop w rest"

section \<open>Store\<close>

text \<open>
  The collection \<open>news\<close>: documents with their identity, their fields and the creation
  time the server assigned.
\<close>

record doc =
  doc_id :: nat
  doc_data :: article
  created_at :: nat

type_synonym store = "doc list"

text \<open>The existence query: \<open>where title == t, where source == s, limit 1\<close>.\<close>

definition existing_docs :: "store \<Rightarrow> article \<Rightarrow> doc list" where
  "existing_docs db a =
     take 1 (filter (\<lambda>d. a_title (doc_data d) = a_title a \<and> a_source (doc_data d) = a_source a) db)"

text \<open>
  The loop of \<open>save_articles_to_firestore\<close>: each candidate is checked against the
  store as it is before the commit, and staged in the batch under a new identity when
  the query finds nothing. \<open>k\<close> counts the calls of \<open>document()\<close>.
\<close>

fun stage_loop :: "store \<Rightarrow> (nat \<Rightarrow> nat) \<Rightarrow> nat \<Rightarrow> article list \<Rightarrow> (nat \<times> article) list" where
  "stage_loop db auto_id k [] = []"
| "stage_loop db auto_id k (a # rest) =
     (if existing_docs db a = [] then (auto_id k, a) # stage_loop db auto_id (Suc k) rest
      else stage_loop db auto_id k rest)"

text \<open>
  \<open>batch.commit()\<close>: each staged \<open>set\<close> writes the document of its identity, replacing
  one that has this identity already, with the commit time as \<open>created_at\<close>.
\<close>

definition set_doc :: "nat \<Rightarrow> store \<Rightarrow> nat \<times> article \<Rightarrow> store" where
  "set_doc ts db wr =
     filter (\<lambda>d. doc_id d \<noteq> fst wr) db @
       [\<lparr>doc_id = fst wr, doc_data = snd wr, created_at = ts\<rparr>]"

definition batch_commit :: "nat \<Rightarrow> store \<Rightarrow> (nat \<times> article) list \<Rightarrow> store" where
  "batch_commit ts db batch = foldl (set_doc ts) db batch"

text \<open>
  \<open>save_articles_to_firestore\<close>. A call of the store that raises (a query or the
  commit) leaves the store as it was, the commit being atomic.
\<close>

definition save_articles_to_firestore :: "world \<Rightarrow> store \<Rightarrow> article list \<Rightarrow> py_exception + store" where
  "save_articles_to_firestore w db articles =
     (case w_store_error w of
        Some e \<Rightarrow> Inl e
      | None \<Rightarrow> Inr (batch_commit (w_server_time w) db (stage_loop db (w_auto_id w) 0 articles)))"

section \<open>Scheduled entry point\<close>

text \<open>
  The status record: \<open>{status: success, articles_count, timestamp}\<close> or
  \<open>{status: error, error, timestamp}\<close>, the time stamp being the moment whose ISO text
  the record holds and the error the exception whose text it holds.
\<close>

datatype crawl_result = Success nat datetime | Failure py_exception datetime

definition weekly_news_crawler :: "world \<Rightarrow> store \<Rightarrow> crawl_result \<times> store" where
  "weekly_news_crawler w db =
     (case w_client_error w of
        Some e \<Rightarrow> (Failure e (w_now w), db)
      | None \<Rightarrow>
          (let all_articles = offices_loop w EDUCATION_OFFICES in
           if all_articles \<noteq> []
           then (case save_articles_to_firestore w db all_articles of
                   Inl e \<Rightarrow> (Failure e (w_now w), db)
                 | Inr db' \<Rightarrow> (Success (length all_articles) (w_now w), db'))
           else (Success (length all_articles) (w_now w), db)))"

section \<open>Endpoints\<close>

datatype http_method = GET | POST | OPTIONS

datatype field_value = StrV pystr | TimestampV nat

type_synonym pydict = "(pystr \<times> field_value) list"

definition category_name :: "category \<Rightarrow> pystr" where
  "category_name c =
     (case c of
        major_news \<Rightarrow> ustr ''major_news''
      | university_news \<Rightarrow> ustr ''university_news''
      | exam_schedule \<Rightarrow> ustr ''exam_schedule''
      | education_office_news \<Rightarrow> ustr ''education_office_news'')"

text \<open>
  \<open>doc.to_dict()\<close>: the fields written by the crawler, and \<open>created_at\<close> as the time
  stamp the server put in place of the sentinel.
\<close>

definition to_dict :: "doc \<Rightarrow> pydict" where
  "to_dict d =
     [(ustr ''title'', StrV (a_title (doc_data d))),
      (ustr ''source'', StrV (a_source (doc_data d))),
      (ustr ''link'', StrV (a_link (doc_data d))),
      (ustr ''date'', StrV (a_date (doc_data d))),
      (ustr ''content'', StrV (a_content (doc_data d))),
      (ustr ''category'', StrV (category_name (a_category (doc_data d)))),
      (ustr ''created_at'', TimestampV (created_at d))]"

text \<open>
  The query of \<open>get_latest_news\<close> for one category: the documents of the category,
  newest first (documents of one creation time by descending identity, as the store
  orders them), at most five.
\<close>

fun insert_desc :: "doc \<Rightarrow> doc list \<Rightarrow> doc list" where
  "insert_desc d [] = [d]"
| "insert_desc d (e # es) =
     (if created_at d > created_at e \<or> (created_at d = created_at e \<and> doc_id d \<ge> doc_id e)
      then d # e # es else e # insert_desc d es)"

definition order_by_created_at_desc :: "doc list \<Rightarrow> doc list" where
  "order_by_created_at_desc ds = foldr insert_desc ds []"

definition query_category :: "store \<Rightarrow> category \<Rightarrow> doc list" where
  "query_category db c =
     take 5 (order_by_created_at_desc (filter (\<lambda>d. a_category (doc_data d) = c) db))"

text \<open>The keys of \<open>news_data\<close> in declaration order, and the dictionary after the loop.\<close>

definition news_categories :: "category list" where
  "news_categories = [major_news, education_office_news, university_news, exam_schedule]"

definition news_data :: "store \<Rightarrow> (category \<times> pydict list) list" where
  "news_data db = map (\<lambda>c. (c, map to_dict (query_category db c))) news_categories"

text \<open>
  \<open>json.dumps\<close> is called without a \<open>default\<close> function: it writes text and numbers
  and raises \<open>TypeError\<close> on a time stamp.
\<close>

fun json_serializable :: "field_value \<Rightarrow> bool" where
  "json_serializable (StrV s) = True"
| "json_serializable (TimestampV t) = False"

datatype body =
    EmptyBody
  | NewsBody "(category \<times> pydict list) list"
  | ResultBody crawl_result
  | ErrorBody py_exception

definition json_dumps_news :: "(category \<times> pydict list) list \<Rightarrow> py_exception + body" where
  "json_dumps_news nd =
     (if list_all (\<lambda>entry. list_all (\<lambda>d. list_all (\<lambda>kv. json_serializable (snd kv)) d) (snd entry)) nd
      then Inr (NewsBody nd) else Inl TypeError)"

text \<open>The status record holds text and a number only, so writing it never raises.\<close>

definition json_dumps_result :: "crawl_result \<Rightarrow> py_exception + body" where
  "json_dumps_result r = Inr (ResultBody r)"

text \<open>
  \<open>get_latest_news\<close>: body and status of the response (the headers are the same three
  in every case). Any exception inside \<open>try\<close> gives the 500 response.
\<close>

definition get_latest_news :: "world \<Rightarrow> store \<Rightarrow> http_method \<Rightarrow> body \<times> nat" where
  "get_latest_news w db method =
     (if method = OPTIONS then (EmptyBody, 204)
      else case w_client_error w of
        Some e \<Rightarrow> (ErrorBody e, 500)
      | None \<Rightarrow>
          (case minus_days (w_now w) 7 of
             Inl e \<Rightarrow> (ErrorBody e, 500)
           | Inr week_ago \<Rightarrow>
               (case w_store_error w of
                  Some e \<Rightarrow> (ErrorBody e, 500)
                | None \<Rightarrow>
                    (case json_dumps_news (news_data db) of
                       Inl e \<Rightarrow> (ErrorBody e, 500)
                     | Inr b \<Rightarrow> (b, 200)))))"

text \<open>\<open>manual_crawl\<close>: the response, and the store after the pass it ran.\<close>

definition manual_crawl :: "world \<Rightarrow> store \<Rightarrow> http_method \<Rightarrow> (body \<times> nat) \<times> store" where
  "manual_crawl w db method =
     (if method = OPTIONS then ((EmptyBody, 204), db)
      else (let (result, db') = weekly_news_crawler w db in
            case json_dumps_result result of
              Inl e \<Rightarrow> ((ErrorBody e, 500), db')
            | Inr b \<Rightarrow> ((b, 200), db')))"

section \<open>Failure of a source\<close>

text \<open>
  Fetching or parsing a source fails when \<open>requests.get\<close> raises (a network error or a
  time-out), when \<open>raise_for_status\<close> raises on the status of the response, or when
  parsing the page or selecting the rows raises.
\<close>

definition fetch_fails :: "world \<Rightarrow> config \<Rightarrow> bool" where
  "fetch_fails w cfg \<longleftrightarrow>
     (case w_http_get w (cfg_url cfg) of
        Inl e \<Rightarrow> True
      | Inr resp \<Rightarrow>
          raise_for_status resp \<noteq> None \<or>
          (case selected resp of Inl e \<Rightarrow> True | Inr rows \<Rightarrow> False))"

text \<open>
  The natural key of an article, and the invariant of the store: no two documents have
  the same key.
\<close>

definition key_of :: "article \<Rightarrow> pystr \<times> pystr" where
  "key_of a = (a_title a, a_source a)"

definition keys_distinct :: "store \<Rightarrow> bool" where
  "keys_distinct db \<longleftrightarrow> distinct (map (\<lambda>d. key_of (doc_data d)) db)"

text \<open>The order of a query result: no document is older than the one after it.\<close>

definition newer_eq :: "doc \<Rightarrow> doc \<Rightarrow> bool" where
  "newer_eq a b \<longleftrightarrow> created_at a \<ge> created_at b"

section \<open>Example inputs\<close>

text \<open>
  A world in which it is 2024-02-01, 09:00, every request times out and the store works,
  and the same world on 2024-03-01.
\<close>

definition quiet_world :: world where
  "quiet_world =
     \<lparr>w_now = \<lparr>dt_year = 2024, dt_month = 2, dt_day = 1, dt_hour = 9, dt_minute = 0,
               dt_second = 0, dt_microsecond = 0\<rparr>,
      w_lower = lower_ascii,
      w_http_get = (\<lambda>u. Inl Timeout),
      w_client_error = None,
      w_store_error = None,
      w_server_time = 1000,
      w_auto_id = (\<lambda>k. k)\<rparr>"

definition march_first :: datetime where
  "march_first =
     \<lparr>dt_year = 2024, dt_month = 3, dt_day = 1, dt_hour = 9, dt_minute = 0,
      dt_second = 0, dt_microsecond = 0\<rparr>"

text \<open>
  Rows: one without a title element; one titled \<open>Notice\<close> whose anchor has no
  \<open>href\<close> and which has no date element; one titled \<open>Notice\<close> with a relative link.
\<close>

definition row_without_title :: row where
  "row_without_title = \<lparr>row_title = None, row_date = None\<rparr>"

definition row_notice :: row where
  "row_notice =
     \<lparr>row_title = Some \<lparr>anchor_text = ustr ''Notice'', anchor_href = None\<rparr>,
      row_date = None\<rparr>"

definition row_view :: row where
  "row_view =
     \<lparr>row_title = Some \<lparr>anchor_text = ustr ''Notice'', anchor_href = Some (ustr ''/view?id=5'')\<rparr>,
      row_date = None\<rparr>"

text \<open>A row titled \<open>Notice\<close> whose relative link begins with the letters \<open>http\<close>.\<close>

definition row_httpd :: row where
  "row_httpd =
     \<lparr>row_title =
        Some \<lparr>anchor_text = ustr ''Notice'', anchor_href = Some (ustr ''httpd/notice.html'')\<rparr>,
      row_date = None\<rparr>"

text \<open>A row titled \<open>Notice\<close> without a link, dated 2023-01-01.\<close>

definition row_old :: row where
  "row_old =
     \<lparr>row_title = Some \<lparr>anchor_text = ustr ''Notice'', anchor_href = None\<rparr>,
      row_date = Some (ustr ''2023-01-01'')\<rparr>"

text \<open>
  Eight rows: among the first five, three that give an article, one without a title
  element and one that is too old; after them three rows that would each give an article.
\<close>

definition eight_rows :: "row list" where
  "eight_rows =
     [row_notice, row_without_title, row_view, row_old, row_notice,
      row_httpd, row_httpd, row_httpd]"

definition example_config :: config where
  "example_config =
     \<lparr>cfg_url = ustr ''https://example.go.kr/path?x=1'', cfg_selector = ustr ''tr'',
      cfg_title_selector = ustr ''a'', cfg_date_selector = ustr ''.date''\<rparr>"

text \<open>Every request is answered with status 200 and a page with the given rows.\<close>

definition page_world :: "row list \<Rightarrow> world" where
  "page_world rows =
     quiet_world\<lparr>w_http_get := \<lambda>u. Inr \<lparr>status_code = 200, selected = Inr rows\<rparr>\<rparr>"

text \<open>
  The request to the first source of the registry times out; the other sources answer
  with a page of one row.
\<close>

definition moe_down_world :: world where
  "moe_down_world =
     quiet_world\<lparr>w_http_get :=
       \<lambda>u. if u = ustr ''https://www.moe.go.kr/boardCnts/list.do?boardID=294'' then Inl Timeout
            else Inr \<lparr>status_code = 200, selected = Inr [row_notice]\<rparr>\<rparr>"

text \<open>
  The first source answers with status 300 and a page of one row, the other sources
  with status 200 and a page of one row.
\<close>

definition status_300_world :: world where
  "status_300_world =
     quiet_world\<lparr>w_http_get :=
       \<lambda>u. if u = ustr ''https://www.moe.go.kr/boardCnts/list.do?boardID=294''
            then Inr \<lparr>status_code = 300, selected = Inr [row_notice]\<rparr>
            else Inr \<lparr>status_code = 200, selected = Inr [row_notice]\<rparr>\<rparr>"

text \<open>
  The first source lists the same notice twice (as a board does that shows a pinned
  notice again in its list); the other sources time out.
\<close>

definition dup_world :: world where
  "dup_world =
     quiet_world\<lparr>w_http_get :=
       \<lambda>u. if u = ustr ''https://www.moe.go.kr/boardCnts/list.do?boardID=294''
            then Inr \<lparr>status_code = 200, selected = Inr [row_notice, row_notice]\<rparr>
            else Inl Timeout\<rparr>"

definition notice_article :: article where
  "notice_article =
     \<lparr>a_title = ustr ''Notice'', a_source = [0xAD50, 0xC721, 0xBD80], a_link = [],
      a_date = [], a_content = fallback_summary, a_category = education_office_news\<rparr>"

text \<open>Creating the client of the store raises.\<close>

definition store_down_world :: world where
  "store_down_world = quiet_world\<lparr>w_client_error := Some StoreError\<rparr>"

text \<open>A store with one article of each category, as one commit of the crawler writes it.\<close>

definition article_of :: "category \<Rightarrow> article" where
  "article_of c =
     \<lparr>a_title = category_name c, a_source = [0xAD50, 0xC721, 0xBD80],
      a_link = ustr ''https://www.moe.go.kr/view?id=5'', a_date = ustr ''2024-01-15'',
      a_content = fallback_summary, a_category = c\<rparr>"

definition one_per_category :: store where
  "one_per_category =
     [\<lparr>doc_id = 0, doc_data = article_of major_news, created_at = 1000\<rparr>,
      \<lparr>doc_id = 1, doc_data = article_of university_news, created_at = 1000\<rparr>,
      \<lparr>doc_id = 2, doc_data = article_of exam_schedule, created_at = 1000\<rparr>,
      \<lparr>doc_id = 3, doc_data = article_of education_office_news, created_at = 1000\<rparr>]"

text \<open>
  Two titles of the specification: one with the second and the third keyword of the
  summarizer (and the year 2024 in front), one with a university term and two
  admissions terms.
\<close>

definition title_two_keywords :: pystr where
  "title_two_keywords =
     [0x32, 0x30, 0x32, 0x34, 0x20, 0xC218, 0xB2A5, 0x20, 0xC804, 0xD615, 0x20, 0xC77C,
      0xC815, 0x20, 0xC548, 0xB0B4]"

definition title_university_admission :: pystr where
  "title_university_admission =
     [0xC11C, 0xC6B8, 0xB300, 0xD559, 0xAD50, 0x20, 0xC218, 0xB2A5, 0x20, 0xC804, 0xD615,
      0x20, 0xC548, 0xB0B4]"

section \<open>Properties of the string operations\<close>

lemma startswith_iff: "startswith s p \<longleftrightarrow> (\<exists>r. s = p @ r)"
  by (induction s p rule: startswith.induct) auto

lemma py_in_iff: "py_in w s \<longleftrightarrow> (\<exists>pre suf. s = pre @ w @ suf)"
proof (induction s)
  case Nil
  then show ?case by auto
next
  case (Cons c s)
  show ?case
  proof
    assume "py_in w (c # s)"
    then consider "startswith (c # s) w" | "py_in w s" by auto
    then show "\<exists>pre suf. c # s = pre @ w @ suf"
    proof cases
      case 1
      then obtain r where "c # s = w @ r" by (auto simp: startswith_iff)
      then have "c # s = [] @ w @ r" by simp
      then show ?thesis by blast
    next
      case 2
      then obtain pre suf where "s = pre @ w @ suf" using Cons.IH by blast
      then have "c # s = (c # pre) @ w @ suf" by simp
      then show ?thesis by blast
    qed
  next
    assume "\<exists>pre suf. c # s = pre @ w @ suf"
    then obtain pre suf where eq: "c # s = pre @ w @ suf" by blast
    show "py_in w (c # s)"
    proof (cases pre)
      case Nil
      with eq have "startswith (c # s) w" by (auto simp: startswith_iff)
      then show ?thesis by simp
    next
      case (Cons a pre')
      with eq have "s = pre' @ w @ suf" by simp
      then have "py_in w s" using Cons.IH by blast
      then show ?thesis by simp
    qed
  qed
qed

lemma py_any_in_iff: "py_any_in ws s \<longleftrightarrow> (\<exists>w \<in> set ws. py_in w s)"
  by (induction ws) auto

section \<open>Summarizer: the first keyword in declaration order decides\<close>

lemma summary_loop_first:
  assumes "i < length kws" "py_in (fst (kws ! i)) title"
    and "\<forall>j < i. \<not> py_in (fst (kws ! j)) title"
  shows "summary_loop kws title = snd (kws ! i)"
  using assms
proof (induction kws arbitrary: i)
  case Nil
  then show ?case by simp
next
  case (Cons kw kws)
  obtain k v where kw: "kw = (k, v)" by (cases kw)
  show ?case
  proof (cases i)
    case 0
    with Cons.prems kw show ?thesis by simp
  next
    case (Suc i')
    from Cons.prems(3) Suc have "\<not> py_in (fst ((kw # kws) ! 0)) title" by blast
    with kw have nk: "\<not> py_in k title" by simp
    have "\<forall>j < i'. \<not> py_in (fst (kws ! j)) title"
    proof (intro allI impI)
      fix j assume "j < i'"
      then have "Suc j < i" using Suc by simp
      with Cons.prems(3) have "\<not> py_in (fst ((kw # kws) ! Suc j)) title" by blast
      then show "\<not> py_in (fst (kws ! j)) title" by simp
    qed
    moreover have "i' < length kws" "py_in (fst (kws ! i')) title"
      using Cons.prems(1,2) Suc by simp_all
    ultimately have "summary_loop kws title = snd (kws ! i')"
      using Cons.IH by blast
    with nk kw Suc show ?thesis by simp
  qed
qed

lemma summary_loop_none:
  "\<forall>kw \<in> set kws. \<not> py_in (fst kw) title \<Longrightarrow> summary_loop kws title = fallback_summary"
  by (induction kws) auto

text \<open>
  Claim C4. If the keyword declared at position \<open>i\<close> occurs in the title as a substring
  (code point for code point, so case-sensitively) and no keyword declared before it does,
  the summarizer returns exactly the sentence mapped to that keyword; if no keyword occurs
  in the title, it returns the generic fallback sentence.
\<close>

theorem extract_content_summary_earliest_keyword:
  "(\<forall>i < length keywords_dict.
      (\<exists>pre suf. title = pre @ fst (keywords_dict ! i) @ suf) \<and>
      (\<forall>j < i. \<not> (\<exists>pre suf. title = pre @ fst (keywords_dict ! j) @ suf))
      \<longrightarrow> extract_content_summary title = snd (keywords_dict ! i)) \<and>
   ((\<forall>kw \<in> set keywords_dict. \<not> (\<exists>pre suf. title = pre @ fst kw @ suf))
      \<longrightarrow> extract_content_summary title = fallback_summary)"
  unfolding extract_content_summary_def py_in_iff [symmetric]
  using summary_loop_first [of _ keywords_dict title] summary_loop_none [of keywords_dict title]
  by blast

theorem extract_content_summary_earliest_keyword_witness:
  "(\<exists>pre suf. title_two_keywords = pre @ fst (keywords_dict ! 1) @ suf) \<and>
   (\<exists>pre suf. title_two_keywords = pre @ fst (keywords_dict ! 2) @ suf) \<and>
   extract_content_summary title_two_keywords = snd (keywords_dict ! 1) \<and>
   extract_content_summary (ustr ''Notice'') = fallback_summary"
proof -
  let ?t = title_two_keywords
  have len: "1 < length keywords_dict" by (simp add: keywords_dict_def)
  have k1: "\<exists>pre suf. ?t = pre @ fst (keywords_dict ! 1) @ suf"
    unfolding py_in_iff [symmetric] by (simp add: keywords_dict_def title_two_keywords_def)
  have k2: "\<exists>pre suf. ?t = pre @ fst (keywords_dict ! 2) @ suf"
    unfolding py_in_iff [symmetric] by (simp add: keywords_dict_def title_two_keywords_def)
  have k0: "\<forall>j < 1. \<not> (\<exists>pre suf. ?t = pre @ fst (keywords_dict ! j) @ suf)"
    unfolding py_in_iff [symmetric] by (simp add: keywords_dict_def title_two_keywords_def)
  have none: "\<forall>kw \<in> set keywords_dict. \<not> (\<exists>pre suf. ustr ''Notice'' = pre @ fst kw @ suf)"
    unfolding py_in_iff [symmetric] by (simp add: keywords_dict_def ustr_def)
  have "extract_content_summary ?t = snd (keywords_dict ! 1)"
    using extract_content_summary_earliest_keyword [of ?t] len k1 k0 by blast
  moreover have "extract_content_summary (ustr ''Notice'') = fallback_summary"
    using extract_content_summary_earliest_keyword [of "ustr ''Notice''"] none by blast
  ultimately show ?thesis using k1 k2 by blast
qed

text \<open>
  Claim C3. Every title gets exactly one of the four categories, decided by the
  case-folded title alone: \<open>major_news\<close> if it contains a core admissions term, otherwise
  \<open>university_news\<close> if it contains a university term, otherwise \<open>exam_schedule\<close> if it
  contains a schedule term, otherwise \<open>education_office_news\<close>. So \<open>major_news\<close> wins
  whenever several keyword sets match.
\<close>

theorem classify_article_priority:
  "classify_article lower title =
     (if \<exists>w \<in> set admission_terms. \<exists>pre suf. lower title = pre @ w @ suf then major_news
      else if \<exists>w \<in> set university_terms. \<exists>pre suf. lower title = pre @ w @ suf
        then university_news
      else if \<exists>w \<in> set schedule_terms. \<exists>pre suf. lower title = pre @ w @ suf
        then exam_schedule
      else education_office_news)"
  by (simp add: classify_article_def Let_def py_any_in_iff py_in_iff)

theorem classify_article_priority_witness:
  "(\<exists>w \<in> set admission_terms. \<exists>pre suf. lower_ascii title_university_admission = pre @ w @ suf) \<and>
   (\<exists>w \<in> set university_terms. \<exists>pre suf. lower_ascii title_university_admission = pre @ w @ suf) \<and>
   classify_article lower_ascii title_university_admission = major_news"
proof -
  let ?t = "lower_ascii title_university_admission"
  have a: "\<exists>w \<in> set admission_terms. \<exists>pre suf. ?t = pre @ w @ suf"
    unfolding py_in_iff [symmetric]
    by (simp add: admission_terms_def title_university_admission_def lower_ascii_def)
  have u: "\<exists>w \<in> set university_terms. \<exists>pre suf. ?t = pre @ w @ suf"
    unfolding py_in_iff [symmetric]
    by (simp add: university_terms_def title_university_admission_def lower_ascii_def)
  have "classify_article lower_ascii title_university_admission = major_news"
    using classify_article_priority [of lower_ascii title_university_admission] a by simp
  with a u show ?thesis by blast
qed

section \<open>The ordinal orders the dates\<close>

text \<open>
  On valid dates the ordinal grows strictly with year, month and day taken in this
  order, so comparing two points in time by ordinal and time of day is comparing them
  field by field, as Python does.
\<close>

lemma days_before_year_Suc:
  assumes "1 \<le> y"
  shows "days_before_year (Suc y) = days_before_year y + (if is_leap y then 366 else 365)"
proof -
  from assms obtain p where y: "y = Suc p" by (cases y) auto
  have a: "Suc p div 4 = (if Suc p mod 4 = 0 then Suc (p div 4) else p div 4)"
    by (rule div_Suc)
  have b: "Suc p div 100 = (if Suc p mod 100 = 0 then Suc (p div 100) else p div 100)"
    by (rule div_Suc)
  have c: "Suc p div 400 = (if Suc p mod 400 = 0 then Suc (p div 400) else p div 400)"
    by (rule div_Suc)
  have d: "p div 100 \<le> p div 4" by (rule div_le_mono2) simp_all
  have e: "Suc p mod 4 = 0" if "Suc p mod 100 = 0"
  proof -
    from that have "100 dvd Suc p" by (simp add: mod_eq_0_iff_dvd)
    moreover have "(4::nat) dvd 100" by simp
    ultimately have "4 dvd Suc p" by (rule dvd_trans [rotated])
    then show ?thesis by (simp add: mod_eq_0_iff_dvd)
  qed
  have f: "Suc p mod 100 = 0" if "Suc p mod 400 = 0"
  proof -
    from that have "400 dvd Suc p" by (simp add: mod_eq_0_iff_dvd)
    moreover have "(100::nat) dvd 400" by simp
    ultimately have "100 dvd Suc p" by (rule dvd_trans [rotated])
    then show ?thesis by (simp add: mod_eq_0_iff_dvd)
  qed
  define q4 q100 q400 where "q4 = p div 4" and "q100 = p div 100" and "q400 = p div 400"
  have d': "q100 \<le> q4" using d by (simp add: q4_def q100_def)
  have lhs: "days_before_year (Suc (Suc p)) =
      Suc p * 365 + (if Suc p mod 4 = 0 then Suc q4 else q4) +
      (if Suc p mod 400 = 0 then Suc q400 else q400) -
      (if Suc p mod 100 = 0 then Suc q100 else q100)"
    unfolding days_before_year_def Let_def q4_def q100_def q400_def
    by (simp only: diff_Suc_1 a b c)
  have rhs: "days_before_year (Suc p) = p * 365 + q4 + q400 - q100"
    unfolding days_before_year_def Let_def q4_def q100_def q400_def
    by (simp only: diff_Suc_1)
  show ?thesis
    unfolding y lhs rhs is_leap_def using d' e f by (auto split: if_splits)
qed


lemma days_before_year_mono:
  assumes "1 \<le> y" and "y < y'"
  shows "days_before_year y + (if is_leap y then 366 else 365) \<le> days_before_year y'"
  using assms(2,1)
proof (induction y' rule: less_Suc_induct)
  case (1 i)
  then show ?case by (simp add: days_before_year_Suc)
next
  case (2 i j k)
  then have "1 \<le> j" by simp
  with 2 show ?case by (auto split: if_splits)
qed

lemma month_cases:
  "1 \<le> m \<Longrightarrow> m \<le> 12 \<Longrightarrow>
     m = 1 \<or> m = 2 \<or> m = 3 \<or> m = 4 \<or> m = 5 \<or> m = 6 \<or> m = 7 \<or> m = 8 \<or> m = 9 \<or> m = 10 \<or>
     m = 11 \<or> m = (12::nat)"
  by arith

lemma days_before_month_Suc:
  assumes "1 \<le> m" and "m < 12"
  shows "days_before_month y (Suc m) = days_before_month y m + days_in_month y m"
proof -
  from assms have "m = 1 \<or> m = 2 \<or> m = 3 \<or> m = 4 \<or> m = 5 \<or> m = 6 \<or> m = 7 \<or> m = 8 \<or> m = 9 \<or>
     m = 10 \<or> m = 11" by arith
  then show ?thesis
    by (elim disjE) (simp_all add: days_before_month_def days_in_month_def eval_nat_numeral)
qed

lemma days_before_month_last:
  "days_before_month y 12 + days_in_month y 12 = (if is_leap y then 366 else 365)"
  by (simp add: days_before_month_def days_in_month_def)

lemma days_before_month_mono:
  assumes "1 \<le> m" and "m < m'" and "m' \<le> 12"
  shows "days_before_month y m + days_in_month y m \<le> days_before_month y m'"
  using assms(2,1,3)
proof (induction m' rule: less_Suc_induct)
  case (1 i)
  then show ?case by (simp add: days_before_month_Suc)
next
  case (2 i j k)
  then show ?case by auto
qed

lemma days_in_year_bound:
  assumes "1 \<le> m" and "m \<le> 12"
  shows "days_before_month y m + days_in_month y m \<le> (if is_leap y then 366 else 365)"
proof (cases "m = 12")
  case True
  then show ?thesis using days_before_month_last [of y] by simp
next
  case False
  with assms have "m < 12" by simp
  from days_before_month_mono [OF assms(1) this, of y] days_before_month_last [of y]
  show ?thesis by (auto split: if_splits)
qed

lemma toordinal_strict_mono:
  assumes "valid_date (dt_year a) (dt_month a) (dt_day a)"
    and "valid_date (dt_year b) (dt_month b) (dt_day b)"
    and "dt_year a < dt_year b \<or>
         (dt_year a = dt_year b \<and>
           (dt_month a < dt_month b \<or> (dt_month a = dt_month b \<and> dt_day a < dt_day b)))"
  shows "toordinal a < toordinal b"
proof -
  let ?ya = "dt_year a" and ?ma = "dt_month a" and ?da = "dt_day a"
  let ?yb = "dt_year b" and ?mb = "dt_month b" and ?db = "dt_day b"
  from assms(1) have va: "1 \<le> ?ya" "1 \<le> ?ma" "?ma \<le> 12" "1 \<le> ?da" "?da \<le> days_in_month ?ya ?ma"
    by (simp_all add: valid_date_def)
  from assms(2) have vb: "1 \<le> ?yb" "1 \<le> ?mb" "?mb \<le> 12" "1 \<le> ?db"
    by (simp_all add: valid_date_def)
  consider "?ya < ?yb" | "?ya = ?yb" "?ma < ?mb" | "?ya = ?yb" "?ma = ?mb" "?da < ?db"
    using assms(3) by blast
  then have "days_before_year ?ya + days_before_month ?ya ?ma + ?da <
             days_before_year ?yb + days_before_month ?yb ?mb + ?db"
  proof cases
    case 1
    have "days_before_month ?ya ?ma + ?da \<le> (if is_leap ?ya then 366 else 365)"
      using days_in_year_bound [OF va(2,3), of ?ya] va(5) by (auto split: if_splits)
    moreover have "days_before_year ?ya + (if is_leap ?ya then 366 else 365) \<le> days_before_year ?yb"
      using va(1) 1 by (rule days_before_year_mono)
    ultimately show ?thesis using vb(4) by (auto split: if_splits)
  next
    case 2
    have "days_before_month ?ya ?ma + days_in_month ?ya ?ma \<le> days_before_month ?ya ?mb"
      using va(2) 2(2) vb(3) by (rule days_before_month_mono)
    then show ?thesis using 2(1) va(5) vb(4) by simp
  next
    case 3
    then show ?thesis by simp
  qed
  then show ?thesis by (simp add: toordinal_def)
qed

section \<open>Recency filter on concrete texts\<close>

lemma py_split_nonempty: "py_split sep s \<noteq> []"
  by (induction s) (auto split: list.splits)

lemma length_py_split: "length (py_split sep s) = Suc (count_list s sep)"
  by (induction s) (auto split: list.splits simp: py_split_nonempty)

lemma decimal_value_ascii: "48 \<le> c \<Longrightarrow> c \<le> 57 \<Longrightarrow> decimal_value c = Some (c - 48)"
  by (simp add: decimal_value_def nd_zeros_def)

lemma is_decimal_ascii: "48 \<le> c \<Longrightarrow> c \<le> 57 \<Longrightarrow> is_decimal c"
  by (simp add: is_decimal_def decimal_value_ascii)

lemma not_decimal_low: "c < 48 \<Longrightarrow> \<not> is_decimal c"
  by (simp add: is_decimal_def decimal_value_def nd_zeros_def)

lemma not_decimal_hangul: "44026 \<le> c \<Longrightarrow> c < 65296 \<Longrightarrow> \<not> is_decimal c"
  by (simp add: is_decimal_def decimal_value_def nd_zeros_def)

lemmas char_eval = is_decimal_ascii not_decimal_low not_decimal_hangul decimal_value_ascii

lemmas strptime_eval = strptime_def in_range_def group_int_def py_int_def py_strip_def
  py_isspace_def valid_date_def days_in_month_def is_leap_def

lemmas ordinal_eval = toordinal_def days_before_year_def days_before_month_def is_leap_def
  Let_def

lemmas loop_eval = is_recent_article_def date_formats_def prepend_year_def try_format_def
  minus_days_def instant_of_def instant_ge_def re_sub_non_date_def

lemma py_str_nat_2024: "py_str_nat 2024 = ustr ''2024''"
  by (simp add: py_str_nat.simps ustr_def)

text \<open>An empty date text, as a row without a date element gives it, counts as recent.\<close>

lemma is_recent_empty: "is_recent_article now []"
  by (simp add: loop_eval strptime_eval)

text \<open>
  Claim C5. On 2024-02-01, at any time of the day, the recency filter answers true for
  the date text \<open>2024-01-15\<close>, false for \<open>2023-01-01\<close>, and true for the text U+ACF5
  U+C9C0 (a Korean word for notice), in which nothing is left to parse.
\<close>

theorem is_recent_article_examples:
  "is_recent_article
     \<lparr>dt_year = 2024, dt_month = 2, dt_day = 1, dt_hour = h, dt_minute = mi, dt_second = s,
      dt_microsecond = us\<rparr> (ustr ''2024-01-15'') = True \<and>
   is_recent_article
     \<lparr>dt_year = 2024, dt_month = 2, dt_day = 1, dt_hour = h, dt_minute = mi, dt_second = s,
      dt_microsecond = us\<rparr> (ustr ''2023-01-01'') = False \<and>
   is_recent_article
     \<lparr>dt_year = 2024, dt_month = 2, dt_day = 1, dt_hour = h, dt_minute = mi, dt_second = s,
      dt_microsecond = us\<rparr> [0xACF5, 0xC9C0] = True"
proof -
  let ?now = "\<lparr>dt_year = 2024, dt_month = 2, dt_day = 1, dt_hour = h, dt_minute = mi,
                dt_second = s, dt_microsecond = us\<rparr>"
  have "is_recent_article ?now (ustr ''2024-01-15'')"
    by (simp add: loop_eval ustr_def char_eval strptime_eval ordinal_eval)
  moreover have "\<not> is_recent_article ?now (ustr ''2023-01-01'')"
    by (simp add: loop_eval ustr_def char_eval strptime_eval ordinal_eval)
  moreover have "is_recent_article ?now [0xACF5, 0xC9C0]"
    by (simp add: loop_eval char_eval strptime_eval)
  ultimately show ?thesis by simp
qed

text \<open>
  Claim C2 says that a month-day text with a period, such as \<open>01.15\<close>, gets the current
  year, is parsed and is compared with the moment thirty days ago. The code does not do
  so: the year is prepended with a hyphen whatever the delimiter of the text, so
  \<open>2024-01.15\<close> fits none of the four formats, every later round prepends another
  year, and the answer is the fallback. On 2024-03-01 the filter answers true for
  \<open>01.15\<close>, and false for the same day written \<open>01-15\<close> or \<open>2024.01.15\<close>.
\<close>

theorem is_recent_article_period_month_day:
  "is_recent_article march_first (ustr ''01.15'') = True \<and>
   is_recent_article march_first (ustr ''01-15'') = False \<and>
   is_recent_article march_first (ustr ''2024.01.15'') = False"
proof -
  have "is_recent_article march_first (ustr ''01.15'')"
    by (simp add: march_first_def loop_eval py_str_nat_2024 ustr_def char_eval strptime_eval
        ordinal_eval)
  moreover have "\<not> is_recent_article march_first (ustr ''01-15'')"
    by (simp add: march_first_def loop_eval py_str_nat_2024 ustr_def char_eval strptime_eval
        ordinal_eval)
  moreover have "\<not> is_recent_article march_first (ustr ''2024.01.15'')"
    by (simp add: march_first_def loop_eval py_str_nat_2024 ustr_def char_eval strptime_eval
        ordinal_eval)
  ultimately show ?thesis by simp
qed

section \<open>Listing extractor: the first five rows\<close>

lemma rows_loop_length: "length (rows_loop body rows) \<le> length rows"
  by (induction rows) (auto split: option.splits)

text \<open>
  The row loop keeps, in order, the article of every row for which the body gives one.
\<close>

lemma rows_loop_map_filter: "rows_loop body rows = List.map_filter body rows"
  by (induction rows) (simp_all add: map_filter_simps split: option.splits)

lemma set_rows_loop: "set (rows_loop body rows) = {a. \<exists>r \<in> set rows. body r = Some a}"
  by (induction rows) (auto split: option.splits)

lemma set_take_five:
  assumes "length rows > 5"
  shows "set (take 5 rows) = {rows ! i | i. i < 5}"
proof -
  have len: "length (take 5 rows) = 5" using assms by simp
  have "set (take 5 rows) = {take 5 rows ! i | i. i < length (take 5 rows)}"
    by (rule set_conv_nth)
  also have "\<dots> = {take 5 rows ! i | i. i < 5}"
    by (simp only: len)
  also have "\<dots> = {rows ! i | i. i < 5}"
  proof (rule Collect_cong)
    fix x
    show "(\<exists>i. x = take 5 rows ! i \<and> i < 5) = (\<exists>i. x = rows ! i \<and> i < 5)"
      by (metis nth_take)
  qed
  finally show ?thesis .
qed

text \<open>What the loop body makes of a row with a title element and a recent date.\<close>

lemma extract_row_recent:
  assumes "row_title element = Some te"
    and "is_recent_article now (case row_date element of None \<Rightarrow> [] | Some t \<Rightarrow> py_strip t)"
  shows "extract_row lower now office_name cfg element =
           Some \<lparr>a_title = py_strip (anchor_text te), a_source = office_name,
                 a_link = resolve_link (cfg_url cfg)
                            (case anchor_href te of None \<Rightarrow> [] | Some h \<Rightarrow> h),
                 a_date = (case row_date element of None \<Rightarrow> [] | Some t \<Rightarrow> py_strip t),
                 a_content = extract_content_summary (py_strip (anchor_text te)),
                 a_category = classify_article lower (py_strip (anchor_text te))\<rparr>"
  using assms by (simp add: extract_row_def Let_def)

lemma raise_for_status_selected: "raise_for_status (r\<lparr>selected := x\<rparr>) = raise_for_status r"
  by (simp add: raise_for_status_def)

lemma strip_notice: "py_strip (ustr ''Notice'') = ustr ''Notice''"
  by (simp add: py_strip_def py_isspace_def ustr_def)

lemma summary_notice: "extract_content_summary (ustr ''Notice'') = fallback_summary"
  by (simp add: extract_content_summary_def keywords_dict_def ustr_def)

lemma classify_notice: "classify_article lower_ascii (ustr ''Notice'') = education_office_news"
  by (simp add: classify_article_def lower_ascii_def admission_terms_def university_terms_def
      schedule_terms_def ustr_def)

lemma extract_notice:
  "extract_row lower_ascii now office_name cfg row_notice =
     Some \<lparr>a_title = ustr ''Notice'', a_source = office_name, a_link = [], a_date = [],
           a_content = fallback_summary, a_category = education_office_news\<rparr>"
  by (simp add: extract_row_def row_notice_def is_recent_empty resolve_link_def Let_def
      strip_notice summary_notice classify_notice)

lemma extract_view:
  "extract_row lower_ascii now office_name example_config row_view =
     Some \<lparr>a_title = ustr ''Notice'', a_source = office_name,
           a_link = ustr ''https://example.go.kr/view?id=5'', a_date = [],
           a_content = fallback_summary, a_category = education_office_news\<rparr>"
  by (simp add: extract_row_def row_view_def is_recent_empty Let_def strip_notice
        summary_notice classify_notice)
     (simp add: resolve_link_def example_config_def ustr_def)

lemma old_not_recent: "\<not> is_recent_article (w_now quiet_world) (ustr ''2023-01-01'')"
  by (simp add: quiet_world_def loop_eval ustr_def char_eval strptime_eval ordinal_eval)

lemma strip_old_date: "py_strip (ustr ''2023-01-01'') = ustr ''2023-01-01''"
  by (simp add: py_strip_def py_isspace_def ustr_def)

lemma extract_old:
  "extract_row lower_ascii (w_now quiet_world) office_name cfg row_old = None"
  by (simp add: extract_row_def row_old_def Let_def strip_old_date old_not_recent)

text \<open>
  Claim C6. When the page is fetched and parsed and the row selector matches more than
  five elements, the crawl of the source is the loop body run over the first five
  elements in document order: its result lists, in document order, the article of each
  of the first five elements for which the body gives one. So each of the first five
  elements that has a title element and a recent date contributes its article, with the
  trimmed title, the source name, the resolved link, the trimmed date text, the summary
  and the category; every article of the result comes from one of the first five
  elements; there are at most five articles; and replacing the elements after the fifth
  by any others changes nothing.
\<close>

theorem crawl_first_five:
  assumes "w_http_get w (cfg_url cfg) = Inr resp" and "raise_for_status resp = None"
    and "selected resp = Inr article_elements" and "length article_elements > 5"
  shows "crawl_education_office w office_name cfg =
           rows_loop (extract_row (w_lower w) (w_now w) office_name cfg)
             (take 5 article_elements) \<and>
         length (crawl_education_office w office_name cfg) \<le> 5 \<and>
         (\<forall>later. crawl_education_office
              (w\<lparr>w_http_get :=
                   \<lambda>u. Inr (resp\<lparr>selected := Inr (take 5 article_elements @ later)\<rparr>)\<rparr>)
              office_name cfg = crawl_education_office w office_name cfg) \<and>
         crawl_education_office w office_name cfg =
           List.map_filter (extract_row (w_lower w) (w_now w) office_name cfg)
             (take 5 article_elements) \<and>
         (\<forall>i < 5. \<forall>a. extract_row (w_lower w) (w_now w) office_name cfg (article_elements ! i) = Some a
              \<longrightarrow> a \<in> set (crawl_education_office w office_name cfg)) \<and>
         (\<forall>a \<in> set (crawl_education_office w office_name cfg).
            \<exists>i < 5. extract_row (w_lower w) (w_now w) office_name cfg (article_elements ! i) = Some a) \<and>
         (\<forall>i < 5. \<forall>te.
            row_title (article_elements ! i) = Some te \<and>
            is_recent_article (w_now w)
              (case row_date (article_elements ! i) of None \<Rightarrow> [] | Some t \<Rightarrow> py_strip t)
            \<longrightarrow> \<lparr>a_title = py_strip (anchor_text te), a_source = office_name,
                  a_link = resolve_link (cfg_url cfg)
                             (case anchor_href te of None \<Rightarrow> [] | Some h \<Rightarrow> h),
                  a_date = (case row_date (article_elements ! i) of
                              None \<Rightarrow> [] | Some t \<Rightarrow> py_strip t),
                  a_content = extract_content_summary (py_strip (anchor_text te)),
                  a_category = classify_article (w_lower w) (py_strip (anchor_text te))\<rparr>
                \<in> set (crawl_education_office w office_name cfg))"
proof -
  let ?body = "extract_row (w_lower w) (w_now w) office_name cfg"
  let ?crawl = "crawl_education_office w office_name cfg"
  have a: "?crawl = rows_loop ?body (take 5 article_elements)"
    using assms(1-3) by (simp add: crawl_education_office_def)
  have "length (rows_loop ?body (take 5 article_elements)) \<le> length (take 5 article_elements)"
    by (rule rows_loop_length)
  then have b: "length ?crawl \<le> 5"
    using a by simp
  have c: "crawl_education_office
              (w\<lparr>w_http_get :=
                   \<lambda>u. Inr (resp\<lparr>selected := Inr (take 5 article_elements @ later)\<rparr>)\<rparr>)
              office_name cfg = ?crawl" for later
    using assms(2,4) a by (simp add: crawl_education_office_def raise_for_status_selected)
  have d: "?crawl = List.map_filter ?body (take 5 article_elements)"
    using a by (simp add: rows_loop_map_filter)
  have s: "set ?crawl = {x. \<exists>i < 5. ?body (article_elements ! i) = Some x}"
    unfolding a set_rows_loop set_take_five [OF assms(4)] by auto
  have e: "x \<in> set ?crawl" if "i < 5" "?body (article_elements ! i) = Some x" for i x
    using that s by auto
  have f: "\<exists>i < 5. ?body (article_elements ! i) = Some x" if "x \<in> set ?crawl" for x
    using that s by auto
  have g: "\<lparr>a_title = py_strip (anchor_text te), a_source = office_name,
            a_link = resolve_link (cfg_url cfg)
                       (case anchor_href te of None \<Rightarrow> [] | Some h \<Rightarrow> h),
            a_date = (case row_date (article_elements ! i) of
                        None \<Rightarrow> [] | Some t \<Rightarrow> py_strip t),
            a_content = extract_content_summary (py_strip (anchor_text te)),
            a_category = classify_article (w_lower w) (py_strip (anchor_text te))\<rparr>
          \<in> set ?crawl"
    if "i < 5" "row_title (article_elements ! i) = Some te"
      "is_recent_article (w_now w)
         (case row_date (article_elements ! i) of None \<Rightarrow> [] | Some t \<Rightarrow> py_strip t)"
    for i te
    using e [OF that(1) extract_row_recent [OF that(2,3)]] .
  from a b c d e f g show ?thesis by blast
qed

theorem crawl_first_five_witness:
  "length eight_rows > 5 \<and>
   crawl_education_office (page_world eight_rows) (ustr ''office'') example_config =
     [\<lparr>a_title = ustr ''Notice'', a_source = ustr ''office'', a_link = [], a_date = [],
       a_content = fallback_summary, a_category = education_office_news\<rparr>,
      \<lparr>a_title = ustr ''Notice'', a_source = ustr ''office'',
       a_link = ustr ''https://example.go.kr/view?id=5'', a_date = [],
       a_content = fallback_summary, a_category = education_office_news\<rparr>,
      \<lparr>a_title = ustr ''Notice'', a_source = ustr ''office'', a_link = [], a_date = [],
       a_content = fallback_summary, a_category = education_office_news\<rparr>]"
proof -
  have len: "length eight_rows > 5" by (simp add: eight_rows_def)
  have t5: "take 5 eight_rows = [row_notice, row_without_title, row_view, row_old, row_notice]"
    by (simp add: eight_rows_def)
  have w: "w_lower (page_world eight_rows) = lower_ascii"
    "w_now (page_world eight_rows) = w_now quiet_world"
    by (simp_all add: page_world_def quiet_world_def)
  have none: "extract_row lower_ascii (w_now quiet_world) (ustr ''office'') example_config
                row_without_title = None"
    by (simp add: extract_row_def row_without_title_def)
  have "crawl_education_office (page_world eight_rows) (ustr ''office'') example_config =
        rows_loop (extract_row (w_lower (page_world eight_rows)) (w_now (page_world eight_rows))
                     (ustr ''office'') example_config) (take 5 eight_rows)"
    using crawl_first_five [of "page_world eight_rows" example_config
        "\<lparr>status_code = 200, selected = Inr eight_rows\<rparr>" eight_rows "ustr ''office''"] len
    by (simp add: page_world_def raise_for_status_def)
  then show ?thesis
    using len by (simp add: t5 w extract_notice extract_view extract_old none)
qed

section \<open>Listing extractor: the stored link\<close>

lemma example_base:
  "py_join (ustr ''/'') (take 3 (py_split 47 (ustr ''https://example.go.kr/path?x=1''))) =
     ustr ''https://example.go.kr''"
  by (simp add: ustr_def)

lemma example_resolve:
  "resolve_link (ustr ''https://example.go.kr/path?x=1'') (ustr ''/view?id=5'') =
     ustr ''https://example.go.kr/view?id=5''"
  by (simp add: resolve_link_def ustr_def)

text \<open>
  Claim C7 as stated fails on two kinds of rows. On a row whose anchor has no \<open>href\<close>
  (or an empty one) the link is the empty text, which starts with no scheme, yet the
  guard \<open>if link and ...\<close> leaves it empty. On a row whose relative link begins with
  the letters \<open>http\<close>, such as \<open>httpd/notice.html\<close>, the test
  \<open>startswith('http')\<close> takes the link for an absolute one and stores it as it is. In
  both cases the stored link is not the first three segments of the endpoint
  \<open>https://example.go.kr/path?x=1\<close>, joined by slashes, followed by the link.
\<close>

theorem stored_link_counterexample:
  "map_option a_link
     (extract_row lower_ascii (w_now quiet_world) (ustr ''office'') example_config row_notice) =
     Some [] \<and>
   [] \<noteq> py_join (ustr ''/'') (take 3 (py_split 47 (cfg_url example_config))) @ [] \<and>
   map_option a_link
     (extract_row lower_ascii (w_now quiet_world) (ustr ''office'') example_config row_httpd) =
     Some (ustr ''httpd/notice.html'') \<and>
   ustr ''httpd/notice.html'' \<noteq>
     py_join (ustr ''/'') (take 3 (py_split 47 (cfg_url example_config))) @
       ustr ''httpd/notice.html''"
proof -
  have "map_option a_link
     (extract_row lower_ascii (w_now quiet_world) (ustr ''office'') example_config row_notice) =
     Some []"
    by (simp add: extract_row_def row_notice_def is_recent_empty resolve_link_def Let_def)
  moreover have "map_option a_link
     (extract_row lower_ascii (w_now quiet_world) (ustr ''office'') example_config row_httpd) =
     Some (ustr ''httpd/notice.html'')"
    by (simp add: extract_row_def row_httpd_def is_recent_empty resolve_link_def Let_def)
       (simp add: ustr_def)
  moreover have "py_join (ustr ''/'') (take 3 (py_split 47 (cfg_url example_config))) =
      ustr ''https://example.go.kr''"
    by (simp add: example_config_def example_base)
  ultimately show ?thesis by (simp add: ustr_def)
qed

text \<open>
  Claim C7, amended. For an article extracted from a row with a title element: if the
  \<open>href\<close> of the title element is not empty and does not start with the four
  characters \<open>http\<close>, the stored link is the first three slash-delimited segments of the
  endpoint URL of the source, joined by slashes, followed by the \<open>href\<close>; if the
  \<open>href\<close> is empty or starts with \<open>http\<close>, the stored link is the \<open>href\<close> as it is;
  if there is no \<open>href\<close>, the stored link is empty. In particular the endpoint
  \<open>https://example.go.kr/path?x=1\<close> and the row link \<open>/view?id=5\<close> give
  \<open>https://example.go.kr/view?id=5\<close>.
\<close>

theorem stored_link_amended:
  assumes "row_title element = Some te"
    and "extract_row lower now office_name cfg element = Some a"
  shows "(\<forall>link. anchor_href te = Some link \<and> link \<noteq> [] \<and> \<not> startswith link (ustr ''http'') \<longrightarrow>
            a_link a = py_join (ustr ''/'') (take 3 (py_split 47 (cfg_url cfg))) @ link) \<and>
         (\<forall>link. anchor_href te = Some link \<and> (link = [] \<or> startswith link (ustr ''http'')) \<longrightarrow>
            a_link a = link) \<and>
         (anchor_href te = None \<longrightarrow> a_link a = []) \<and>
         resolve_link (ustr ''https://example.go.kr/path?x=1'') (ustr ''/view?id=5'') =
           ustr ''https://example.go.kr/view?id=5''"
  using assms example_resolve
  by (auto simp: extract_row_def resolve_link_def Let_def split: if_splits)

theorem stored_link_amended_witness:
  "row_title row_view =
     Some \<lparr>anchor_text = ustr ''Notice'', anchor_href = Some (ustr ''/view?id=5'')\<rparr> \<and>
   map_option a_link
     (extract_row lower_ascii (w_now quiet_world) (ustr ''office'') example_config row_view) =
     Some (ustr ''https://example.go.kr/view?id=5'')"
proof -
  let ?te = "\<lparr>anchor_text = ustr ''Notice'', anchor_href = Some (ustr ''/view?id=5'')\<rparr>"
  let ?link = "ustr ''/view?id=5''"
  have t: "row_title row_view = Some ?te" by (simp add: row_view_def)
  obtain a where a:
    "extract_row lower_ascii (w_now quiet_world) (ustr ''office'') example_config row_view = Some a"
    by (simp add: extract_row_def row_view_def is_recent_empty Let_def)
  have h: "anchor_href ?te = Some ?link \<and> ?link \<noteq> [] \<and> \<not> startswith ?link (ustr ''http'')"
    by (simp add: ustr_def)
  from stored_link_amended [OF t a] h
  have "a_link a = py_join (ustr ''/'') (take 3 (py_split 47 (cfg_url example_config))) @ ?link"
    by blast
  then have "a_link a = ustr ''https://example.go.kr/view?id=5''"
    by (simp add: example_config_def example_base) (simp add: ustr_def)
  with t a show ?thesis by simp
qed

section \<open>Store writer\<close>

lemma existing_docs_empty_key:
  "existing_docs db a = [] \<longleftrightarrow> key_of a \<notin> set (map (\<lambda>d. key_of (doc_data d)) db)"
  by (force simp: existing_docs_def key_of_def filter_empty_conv)

text \<open>The staged articles are the candidates whose key is not in the store, in order.\<close>

lemma stage_loop_articles:
  "map snd (stage_loop db auto_id k candidates) =
     filter (\<lambda>a. key_of a \<notin> set (map (\<lambda>d. key_of (doc_data d)) db)) candidates"
  by (induction candidates arbitrary: k) (simp_all add: existing_docs_empty_key)

lemma stage_loop_ids:
  "map fst (stage_loop db auto_id k candidates) =
     map auto_id [k ..< k + length (stage_loop db auto_id k candidates)]"
proof (induction candidates arbitrary: k)
  case Nil
  then show ?case by simp
next
  case (Cons a candidates)
  show ?case
  proof (cases "existing_docs db a = []")
    case True
    have "[k ..< k + Suc (length (stage_loop db auto_id (Suc k) candidates))] =
          k # [Suc k ..< Suc k + length (stage_loop db auto_id (Suc k) candidates)]"
      by (simp add: upt_rec)
    with True Cons.IH [of "Suc k"] show ?thesis by simp
  next
    case False
    with Cons.IH [of k] show ?thesis by simp
  qed
qed

lemma set_doc_fresh:
  "fst wr \<notin> doc_id ` set db \<Longrightarrow>
     set_doc ts db wr = db @ [\<lparr>doc_id = fst wr, doc_data = snd wr, created_at = ts\<rparr>]"
  by (force simp: set_doc_def filter_id_conv)

lemma batch_commit_fresh:
  assumes "distinct (map fst batch)" and "set (map fst batch) \<inter> doc_id ` set db = {}"
  shows "batch_commit ts db batch =
           db @ map (\<lambda>wr. \<lparr>doc_id = fst wr, doc_data = snd wr, created_at = ts\<rparr>) batch"
  using assms unfolding batch_commit_def
proof (induction batch arbitrary: db)
  case Nil
  then show ?case by simp
next
  case (Cons wr batch)
  have fresh: "fst wr \<notin> doc_id ` set db" using Cons.prems(2) by auto
  let ?db = "db @ [\<lparr>doc_id = fst wr, doc_data = snd wr, created_at = ts\<rparr>]"
  have i: "set (map fst batch) \<inter> doc_id ` set ?db = {}"
    using Cons.prems by auto
  have d: "distinct (map fst batch)" using Cons.prems(1) by simp
  have "foldl (set_doc ts) ?db batch =
      ?db @ map (\<lambda>wr. \<lparr>doc_id = fst wr, doc_data = snd wr, created_at = ts\<rparr>) batch"
    using d i by (rule Cons.IH)
  then show ?case by (simp add: set_doc_fresh [OF fresh])
qed

text \<open>
  What the writer does keep: when the candidates that are new to the store have pairwise
  different keys (and the generated identities are new), a store without duplicate keys
  stays without duplicate keys.
\<close>

lemma save_articles_keys_distinct:
  assumes "keys_distinct db"
    and "distinct (map key_of
           (filter (\<lambda>a. key_of a \<notin> set (map (\<lambda>d. key_of (doc_data d)) db)) candidates))"
    and "inj (w_auto_id w)" and "\<forall>k. w_auto_id w k \<notin> doc_id ` set db"
    and "w_store_error w = None"
  shows "\<exists>db'. save_articles_to_firestore w db candidates = Inr db' \<and> keys_distinct db'"
proof -
  let ?batch = "stage_loop db (w_auto_id w) 0 candidates"
  let ?new = "filter (\<lambda>a. key_of a \<notin> set (map (\<lambda>d. key_of (doc_data d)) db)) candidates"
  have ids: "map fst ?batch = map (w_auto_id w) [0 ..< 0 + length ?batch]"
    by (rule stage_loop_ids)
  have d: "distinct (map fst ?batch)"
    unfolding ids using assms(3) by (simp add: distinct_map inj_on_def inj_def)
  have f: "set (map fst ?batch) \<inter> doc_id ` set db = {}"
    unfolding ids using assms(4) by auto
  let ?db' = "db @ map (\<lambda>wr. \<lparr>doc_id = fst wr, doc_data = snd wr,
                                created_at = w_server_time w\<rparr>) ?batch"
  have c: "batch_commit (w_server_time w) db ?batch = ?db'"
    using d f by (rule batch_commit_fresh)
  have "map (\<lambda>d. key_of (doc_data d)) ?db' =
          map (\<lambda>d. key_of (doc_data d)) db @ map key_of (map snd ?batch)"
    by (simp add: comp_def)
  also have "\<dots> = map (\<lambda>d. key_of (doc_data d)) db @ map key_of ?new"
    by (simp only: stage_loop_articles)
  finally have "keys_distinct ?db'"
    using assms(1,2) by (auto simp: keys_distinct_def)
  with c assms(5) show ?thesis by (simp add: save_articles_to_firestore_def)
qed

lemma dup_candidates: "offices_loop dup_world EDUCATION_OFFICES = [notice_article, notice_article]"
  by (simp add: EDUCATION_OFFICES_def crawl_education_office_def dup_world_def quiet_world_def
        raise_for_status_def extract_notice notice_article_def)
     (simp add: ustr_def)

lemma dup_save:
  "save_articles_to_firestore dup_world [] [notice_article, notice_article] =
     Inr [\<lparr>doc_id = 0, doc_data = notice_article, created_at = 1000\<rparr>,
          \<lparr>doc_id = 1, doc_data = notice_article, created_at = 1000\<rparr>]"
  by (simp add: save_articles_to_firestore_def dup_world_def quiet_world_def existing_docs_def
      batch_commit_def set_doc_def)

lemma dup_client: "w_client_error dup_world = None"
  by (simp add: dup_world_def quiet_world_def)

text \<open>
  Claim C1 says that the store never holds two articles of one title and source, also
  when one pass submits two such candidates. The code does not keep this: the existence
  query of each candidate reads the store as it is before the commit, so two candidates
  of one title and source both find nothing and both are written. From the empty store,
  the candidate list with the same notice twice leaves two documents of that title and
  source; and a pass over a listing that shows the notice twice produces this list.
\<close>

theorem save_articles_duplicate_in_one_pass:
  "keys_distinct [] \<and>
   save_articles_to_firestore dup_world [] [notice_article, notice_article] =
     Inr [\<lparr>doc_id = 0, doc_data = notice_article, created_at = 1000\<rparr>,
          \<lparr>doc_id = 1, doc_data = notice_article, created_at = 1000\<rparr>] \<and>
   \<not> keys_distinct [\<lparr>doc_id = 0, doc_data = notice_article, created_at = 1000\<rparr>,
                      \<lparr>doc_id = 1, doc_data = notice_article, created_at = 1000\<rparr>] \<and>
   weekly_news_crawler dup_world [] =
     (Success 2 (w_now dup_world),
      [\<lparr>doc_id = 0, doc_data = notice_article, created_at = 1000\<rparr>,
       \<lparr>doc_id = 1, doc_data = notice_article, created_at = 1000\<rparr>])"
  by (simp add: weekly_news_crawler_def dup_candidates dup_save dup_client keys_distinct_def)

section \<open>Query service\<close>

lemma insert_desc_set: "set (insert_desc d ds) = insert d (set ds)"
  by (induction ds) auto

lemma order_by_created_at_desc_set: "set (order_by_created_at_desc ds) = set ds"
  unfolding order_by_created_at_desc_def by (induction ds) (auto simp: insert_desc_set)

lemma insert_desc_sorted:
  "sorted_wrt newer_eq ds \<Longrightarrow> sorted_wrt newer_eq (insert_desc d ds)"
  by (induction ds) (auto simp: newer_eq_def insert_desc_set)

lemma order_by_created_at_desc_sorted: "sorted_wrt newer_eq (order_by_created_at_desc ds)"
  unfolding order_by_created_at_desc_def by (induction ds) (auto simp: insert_desc_sorted)

text \<open>
  The list the query loop builds for a category has at most five documents, all of them
  stored documents of the category, newest first.
\<close>

lemma query_category_props:
  "length (query_category db c) \<le> 5 \<and>
   set (query_category db c) \<subseteq> {d \<in> set db. a_category (doc_data d) = c} \<and>
   sorted_wrt newer_eq (query_category db c)"
proof -
  have "set (query_category db c) \<subseteq>
          set (order_by_created_at_desc (filter (\<lambda>d. a_category (doc_data d) = c) db))"
    unfolding query_category_def by (rule set_take_subset)
  moreover have "sorted_wrt newer_eq (query_category db c)"
    unfolding query_category_def
    by (rule sorted_wrt_take) (rule order_by_created_at_desc_sorted)
  ultimately show ?thesis
    by (auto simp: order_by_created_at_desc_set query_category_def)
qed

text \<open>One stored document in any of the four lists makes \<open>json.dumps\<close> raise.\<close>

lemma json_dumps_news_fails:
  assumes "d \<in> set (query_category db c)"
  shows "json_dumps_news (news_data db) = Inl TypeError"
proof -
  have "c \<in> set news_categories" by (cases c) (simp_all add: news_categories_def)
  then have "(c, map to_dict (query_category db c)) \<in> set (news_data db)"
    by (auto simp: news_data_def)
  moreover have "to_dict d \<in> set (map to_dict (query_category db c))" using assms by simp
  moreover have "(ustr ''created_at'', TimestampV (created_at d)) \<in> set (to_dict d)"
    by (simp add: to_dict_def)
  ultimately have "\<not> list_all (\<lambda>entry. list_all (\<lambda>d. list_all (\<lambda>kv. json_serializable (snd kv)) d)
                      (snd entry)) (news_data db)"
    unfolding list_all_iff by force
  then show ?thesis by (simp add: json_dumps_news_def)
qed

lemma get_latest_news_500:
  assumes "method \<noteq> OPTIONS" and "d \<in> set (query_category db c)"
  shows "snd (get_latest_news w db method) = 500"
  using assms(1) json_dumps_news_fails [OF assms(2)]
  by (auto simp: get_latest_news_def split: option.splits sum.splits)

lemma one_per_category_written:
  "save_articles_to_firestore quiet_world []
     [article_of major_news, article_of university_news, article_of exam_schedule,
      article_of education_office_news] = Inr one_per_category"
  by (simp add: save_articles_to_firestore_def quiet_world_def existing_docs_def
      batch_commit_def set_doc_def one_per_category_def)

lemma query_major_news:
  "query_category one_per_category major_news =
     [\<lparr>doc_id = 0, doc_data = article_of major_news, created_at = 1000\<rparr>]"
  by (simp add: query_category_def one_per_category_def article_of_def
      order_by_created_at_desc_def)

text \<open>
  Claim C8 says that the query service returns, for each category, at most five stored
  articles, newest first, and one article in each list after one article of each
  category was inserted. The code builds these lists (each of the four has one entry
  here) but does not return them: every stored document has the time stamp
  \<open>created_at\<close>, on which \<open>json.dumps\<close> raises, and the response is the error with
  status 500.
\<close>

theorem get_latest_news_fails_on_timestamp:
  "map (\<lambda>entry. length (snd entry)) (news_data one_per_category) = [1, 1, 1, 1] \<and>
   get_latest_news quiet_world one_per_category GET = (ErrorBody TypeError, 500)"
proof -
  have "map (\<lambda>entry. length (snd entry)) (news_data one_per_category) = [1, 1, 1, 1]"
    by (simp add: news_data_def news_categories_def query_category_def one_per_category_def
        article_of_def order_by_created_at_desc_def)
  moreover have "json_dumps_news (news_data one_per_category) = Inl TypeError"
    by (rule json_dumps_news_fails
          [of "\<lparr>doc_id = 0, doc_data = article_of major_news, created_at = 1000\<rparr>" _ major_news])
       (simp add: query_major_news)
  moreover have "minus_days (w_now quiet_world) 7 =
      Inr \<lparr>ordinal = 738910, time_of_day = (9, 0, 0, 0)\<rparr>"
    by (simp add: quiet_world_def minus_days_def instant_of_def ordinal_eval)
  ultimately show ?thesis
    by (simp add: get_latest_news_def) (simp add: quiet_world_def)
qed

section \<open>Failures of a source and of the pass\<close>

lemma crawl_fails_empty: "fetch_fails w cfg \<Longrightarrow> crawl_education_office w office_name cfg = []"
  by (auto simp: fetch_fails_def crawl_education_office_def split: sum.splits option.splits)

lemma offices_loop_append: "offices_loop w (xs @ ys) = offices_loop w xs @ offices_loop w ys"
  by (induction xs) auto

lemma crawl_one_notice:
  assumes "w_http_get w (cfg_url cfg) = Inr \<lparr>status_code = s, selected = Inr [row_notice]\<rparr>"
    and "s < 400"
  shows "length (crawl_education_office w office_name cfg) = 1"
  using assms
  by (simp add: crawl_education_office_def raise_for_status_def extract_row_def row_notice_def
      is_recent_empty Let_def)

lemma weekly_news_crawler_success:
  assumes "w_client_error w = None" and "w_store_error w = None"
  shows "fst (weekly_news_crawler w db) =
           Success (length (offices_loop w EDUCATION_OFFICES)) (w_now w)"
  using assms by (simp add: weekly_news_crawler_def save_articles_to_firestore_def Let_def)

text \<open>
  Claim C9 as stated counts every status outside 200 to 299 as a failure of the source.
  The code leaves the decision to \<open>raise_for_status\<close>, which raises on the statuses 400
  to 599 only: a response with status 300 is parsed like any other. Here the first source
  of the registry answers with status 300 and a page of one row; it contributes one
  article, and the pass counts four articles, not the three of the other sources.
\<close>

theorem non_2xx_status_counterexample:
  "w_http_get status_300_world (cfg_url (snd (hd EDUCATION_OFFICES))) =
     Inr \<lparr>status_code = 300, selected = Inr [row_notice]\<rparr> \<and>
   length (crawl_education_office status_300_world (fst (hd EDUCATION_OFFICES))
             (snd (hd EDUCATION_OFFICES))) = 1 \<and>
   fst (weekly_news_crawler status_300_world []) = Success 4 (w_now status_300_world)"
proof -
  let ?w = status_300_world
  have g: "w_http_get ?w (cfg_url (snd (hd EDUCATION_OFFICES))) =
     Inr \<lparr>status_code = 300, selected = Inr [row_notice]\<rparr>"
    by (simp add: status_300_world_def EDUCATION_OFFICES_def)
  have one: "length (crawl_education_office ?w (fst (hd EDUCATION_OFFICES))
             (snd (hd EDUCATION_OFFICES))) = 1"
    using g by (rule crawl_one_notice) simp
  have "length (offices_loop ?w EDUCATION_OFFICES) = 4"
    by (simp add: EDUCATION_OFFICES_def crawl_one_notice status_300_world_def ustr_def)
  moreover have "w_client_error ?w = None" "w_store_error ?w = None"
    by (simp_all add: status_300_world_def quiet_world_def)
  ultimately have "fst (weekly_news_crawler ?w []) = Success 4 (w_now ?w)"
    by (simp add: weekly_news_crawler_success)
  with g one show ?thesis by simp
qed

text \<open>
  Claim C9, amended. If fetching or parsing one source of the registry fails, that is
  the request raises (a network error or a time-out), the status of the response is one
  of 400 to 599, or parsing the page raises, then this source contributes no article, the
  articles of the pass are those of the sources before it followed by those of the
  sources after it, in registry order, and, the calls of the store succeeding, the
  scheduled entry point returns the success record that counts the articles of the other
  sources.
\<close>

theorem failing_source_isolated:
  assumes "EDUCATION_OFFICES = before @ (office_name, cfg) # after"
    and "fetch_fails w cfg"
  shows "crawl_education_office w office_name cfg = [] \<and>
         offices_loop w EDUCATION_OFFICES = offices_loop w before @ offices_loop w after \<and>
         (w_client_error w = None \<and> w_store_error w = None \<longrightarrow>
            fst (weekly_news_crawler w db) =
              Success (length (offices_loop w before) + length (offices_loop w after)) (w_now w))"
proof -
  have e: "crawl_education_office w office_name cfg = []"
    using assms(2) by (rule crawl_fails_empty)
  have l: "offices_loop w EDUCATION_OFFICES = offices_loop w before @ offices_loop w after"
    unfolding assms(1) by (simp add: offices_loop_append e)
  have "fst (weekly_news_crawler w db) =
          Success (length (offices_loop w before) + length (offices_loop w after)) (w_now w)"
    if "w_client_error w = None" "w_store_error w = None"
    using that by (simp add: weekly_news_crawler_def save_articles_to_firestore_def l Let_def)
  with e l show ?thesis by blast
qed

theorem failing_source_isolated_witness:
  "fetch_fails moe_down_world (snd (hd EDUCATION_OFFICES)) \<and>
   fst (weekly_news_crawler moe_down_world []) = Success 3 (w_now moe_down_world)"
proof -
  let ?w = moe_down_world
  let ?name = "fst (hd EDUCATION_OFFICES)" and ?cfg = "snd (hd EDUCATION_OFFICES)"
  have split: "EDUCATION_OFFICES = [] @ (?name, ?cfg) # tl EDUCATION_OFFICES"
    by (simp add: EDUCATION_OFFICES_def)
  have fails: "fetch_fails ?w ?cfg"
    by (simp add: fetch_fails_def moe_down_world_def EDUCATION_OFFICES_def)
  have ok: "w_client_error ?w = None \<and> w_store_error ?w = None"
    by (simp add: moe_down_world_def quiet_world_def)
  have others: "length (offices_loop ?w (tl EDUCATION_OFFICES)) = 3"
    by (simp add: EDUCATION_OFFICES_def crawl_one_notice moe_down_world_def ustr_def)
  from failing_source_isolated [OF split fails, of "[]"] ok
  have "fst (weekly_news_crawler ?w []) =
          Success (length (offices_loop ?w []) + length (offices_loop ?w (tl EDUCATION_OFFICES)))
            (w_now ?w)"
    by blast
  with fails others show ?thesis by simp
qed

text \<open>
  Claim C10. On every request other than \<open>OPTIONS\<close> the manual-trigger endpoint
  answers with status 200 and the record of the pass as its body; it never answers with
  status 500. A failure inside the pass (creating the client of the store raises, or a
  call of the store raises while there are articles to save) is returned by
  \<open>weekly_news_crawler\<close> as the error record, which is then the body of the 200
  response.
\<close>

theorem manual_crawl_always_200:
  "(method \<noteq> OPTIONS \<longrightarrow>
      fst (manual_crawl w db method) = (ResultBody (fst (weekly_news_crawler w db)), 200)) \<and>
   snd (fst (manual_crawl w db method)) \<noteq> 500 \<and>
   (\<forall>e. w_client_error w = Some e \<longrightarrow>
        fst (weekly_news_crawler w db) = Failure e (w_now w)) \<and>
   (\<forall>e. w_client_error w = None \<and> offices_loop w EDUCATION_OFFICES \<noteq> [] \<and>
        w_store_error w = Some e \<longrightarrow>
        fst (weekly_news_crawler w db) = Failure e (w_now w))"
  by (auto simp: manual_crawl_def json_dumps_result_def weekly_news_crawler_def
      save_articles_to_firestore_def Let_def split: prod.splits)

theorem manual_crawl_always_200_witness:
  "GET \<noteq> OPTIONS \<and> w_client_error store_down_world = Some StoreError \<and>
   fst (manual_crawl store_down_world [] GET) =
     (ResultBody (Failure StoreError (w_now store_down_world)), 200)"
proof -
  have m: "GET \<noteq> OPTIONS" by simp
  have c: "w_client_error store_down_world = Some StoreError"
    by (simp add: store_down_world_def)
  from manual_crawl_always_200 [of GET store_down_world "[]"] m c
  have "fst (manual_crawl store_down_world [] GET) =
          (ResultBody (fst (weekly_news_crawler store_down_world [])), 200)"
    and "fst (weekly_news_crawler store_down_world []) = Failure StoreError (w_now store_down_world)"
    by blast+
  with m c show ?thesis by simp
qed

end
